theory Spec2Isabelle
  imports Main "HOL-Library.AList"
begin

section \<open>JavaScript values\<close>

text \<open>
  The values that flags, arguments and resource pools hold. A number is one of: an
  integer-valued finite number \<open>JNum n\<close>; a finite number that is no integer,
  \<open>JFrac m e\<close>, which is \<open>m / 2^e\<close> with \<open>m\<close> odd and \<open>e > 0\<close>, the form every such
  double has; \<open>NaN\<close>; or an infinity with its sign. A string is a list of code units
  below 256. An object is its list of own properties, in insertion order.
\<close>

datatype jsval =
    JUndefined
  | JNull
  | JBool bool
  | JNum int
  | JFrac int nat
  | JNaN
  | JInfinity bool
  | JStr string
  | JObj "(string \<times> jsval) list"


text \<open>
  Strict equality \<open>a === b\<close>. \<open>NaN\<close> equals nothing; an object read from a document is
  never the same reference as a value that arrived as an argument.
\<close>

definition strict_eq :: "jsval \<Rightarrow> jsval \<Rightarrow> bool" where
  "strict_eq a b = (case a of JNaN \<Rightarrow> False | JObj kvs \<Rightarrow> False | _ \<Rightarrow> a = b)"

text \<open>\<open>Number.isFinite(v)\<close>: no coercion, true for finite numbers only.\<close>

fun isFinite :: "jsval \<Rightarrow> bool" where
  "isFinite (JNum n) = True"
| "isFinite (JFrac m e) = True"
| "isFinite v = False"

text \<open>\<open>a ?? b\<close>.\<close>

fun nullish :: "jsval \<Rightarrow> bool" where
  "nullish JUndefined = True"
| "nullish JNull = True"
| "nullish v = False"

definition coalesce :: "jsval \<Rightarrow> jsval \<Rightarrow> jsval" where
  "coalesce a b = (if nullish a then b else a)"

subsection \<open>Printing numbers and values\<close>

definition digit_char :: "nat \<Rightarrow> char" where
  "digit_char d = ''0123456789'' ! d"

function show_digits :: "int \<Rightarrow> string" where
  "show_digits n =
    (if n < 10 then [digit_char (nat n)]
     else show_digits (n div 10) @ [digit_char (nat (n mod 10))])"
  by pat_completeness auto
termination
  by (relation "measure nat") auto

declare show_digits.simps [simp del]

definition show_int :: "int \<Rightarrow> string" where
  "show_int i = (if i < 0 then CHR ''-'' # show_digits (- i) else show_digits i)"

text \<open>
  The numbers are the doubles. \<open>nearest p q\<close> is the double nearest to \<open>p / q\<close>, for
  \<open>p \<ge> 0\<close> and \<open>q > 0\<close>, ties going to the even mantissa: the pair \<open>(m, t)\<close> stands for
  \<open>m / 2^t\<close>, a mantissa of at most 53 bits whose last bit has the weight \<open>2^(-t)\<close>, and
  never a weight below \<open>2^(-1074)\<close>. No quotient that is rounded here reaches \<open>2^1024\<close>,
  where the result would be an infinity.
\<close>

function bitlen :: "int \<Rightarrow> nat" where
  "bitlen n = (if n \<le> 0 then 0 else Suc (bitlen (n div 2)))"
  by pat_completeness auto
termination
  by (relation "measure nat") auto

declare bitlen.simps [simp del]

definition roundDiv :: "int \<Rightarrow> int \<Rightarrow> int" where
  "roundDiv a b =
    (let q = a div b; r = a mod b in if b < 2 * r \<or> (2 * r = b \<and> odd q) then q + 1 else q)"

text \<open>The exponent of the highest bit of \<open>p / q\<close>.\<close>

definition log2floor :: "int \<Rightarrow> int \<Rightarrow> int" where
  "log2floor p q =
    (let l = int (bitlen p) - int (bitlen q)
     in if q * 2 ^ nat l \<le> p * 2 ^ nat (- l) then l else l - 1)"

definition nearest :: "int \<Rightarrow> int \<Rightarrow> int \<times> int" where
  "nearest p q =
    (let t = min 1074 (52 - log2floor p q)
     in (roundDiv (p * 2 ^ nat t) (q * 2 ^ nat (- t)), t))"

text \<open>The value \<open>m / 2^t\<close> as a number: an integer, or a fraction in lowest terms.\<close>

function number :: "int \<Rightarrow> int \<Rightarrow> jsval" where
  "number m t =
    (if t \<le> 0 then JNum (m * 2 ^ nat (- t))
     else if even m then number (m div 2) (t - 1)
     else JFrac m (nat t))"
  by pat_completeness auto
termination
  by (relation "measure (\<lambda>(m, t). nat t)") auto

declare number.simps [simp del]

text \<open>The number that the quotient \<open>p / q\<close> is rounded to, \<open>q > 0\<close>.\<close>

definition toNumber :: "int \<Rightarrow> int \<Rightarrow> jsval" where
  "toNumber p q = (let (m, t) = nearest \<bar>p\<bar> q in number (if p < 0 then - m else m) t)"

text \<open>
  \<open>Number::toString\<close> prints a number \<open>x > 0\<close> from integers \<open>n\<close>, \<open>k\<close> and \<open>s\<close> such that
  \<open>s\<close> has \<open>k\<close> digits, \<open>s * 10^(n - k)\<close> still denotes \<open>x\<close>, and \<open>k\<close> is as small as
  possible; of several such \<open>s\<close> it takes the one nearest to \<open>x\<close>. Here \<open>x\<close> is \<open>p / q\<close>.
  \<open>decpos p q\<close> is the \<open>n\<close> with \<open>10^(n - 1) \<le> x < 10^n\<close>, \<open>cands p q k\<close> are the pairs
  \<open>(s, n)\<close> with a \<open>k\<close>-digit \<open>s\<close>; seventeen digits always suffice for a double.
\<close>

function lead :: "int \<Rightarrow> int \<Rightarrow> nat" where
  "lead p q = (if p \<le> 0 \<or> q \<le> 10 * p then 0 else Suc (lead (10 * p) q))"
  by pat_completeness auto
termination
  by (relation "measure (\<lambda>(p, q). nat (q - p))") auto

declare lead.simps [simp del]

definition decpos :: "int \<Rightarrow> int \<Rightarrow> int" where
  "decpos p q = (if q \<le> p then int (length (show_digits (p div q))) else - int (lead p q))"

definition cands :: "int \<Rightarrow> int \<Rightarrow> nat \<Rightarrow> (int \<times> int) list" where
  "cands p q k =
    filter (\<lambda>(s, n). 10 ^ (k - 1) \<le> s \<and> s < 10 ^ k
              \<and> toNumber (s * 10 ^ nat (n - int k)) (10 ^ nat (int k - n)) = toNumber p q)
      (concat (map (\<lambda>n. let s = (p * 10 ^ nat (int k - n)) div (q * 10 ^ nat (n - int k))
                         in [(s, n), (s + 1, n)])
                [decpos p q, decpos p q + 1]))"

text \<open>How far \<open>s * 10^(n - k)\<close> is from \<open>p / q\<close>, as a numerator over a denominator.\<close>

definition gap :: "int \<Rightarrow> int \<Rightarrow> nat \<Rightarrow> int \<times> int \<Rightarrow> int \<times> int" where
  "gap p q k c =
    (let a = 10 ^ nat (snd c - int k); b = 10 ^ nat (int k - snd c)
     in (\<bar>fst c * a * q - p * b\<bar>, b))"

fun nearer :: "int \<Rightarrow> int \<Rightarrow> nat \<Rightarrow> (int \<times> int) list \<Rightarrow> int \<times> int \<Rightarrow> int \<times> int" where
  "nearer p q k [] best = best"
| "nearer p q k (c # cs) best =
     nearer p q k cs
       (let (a, b) = gap p q k c; (a', b') = gap p q k best
        in if a * b' < a' * b \<or> (a * b' = a' * b \<and> even (fst c)) then c else best)"

function find_digits :: "int \<Rightarrow> int \<Rightarrow> nat \<Rightarrow> int \<times> int" where
  "find_digits p q k =
    (if 17 < k then (p div q, decpos p q)
     else (case cands p q k of
             [] \<Rightarrow> find_digits p q (Suc k)
           | c # cs \<Rightarrow> nearer p q k cs c))"
  by pat_completeness auto
termination
  by (relation "measure (\<lambda>(p, q, k). 18 - k)") auto

declare find_digits.simps [simp del]

definition digits_of :: "int \<Rightarrow> int \<Rightarrow> int \<times> int" where
  "digits_of p q = find_digits p q 1"

text \<open>
  The digits \<open>ds\<close> with the point after the first \<open>n\<close> of them. Up to \<open>n = 21\<close> an integer
  is its digits followed by zeros, and a fraction has its point inside the digits; down to
  \<open>n = -5\<close> the digits follow \<open>0.\<close> and \<open>-n\<close> zeros; otherwise the first digit, the other
  digits after a point if there are any, and the exponent \<open>n - 1\<close> are printed, as in
  \<open>1e+21\<close>, \<open>1.2676506002282294e+30\<close> and \<open>5e-7\<close>.
\<close>

definition show_point :: "string \<Rightarrow> int \<Rightarrow> string" where
  "show_point ds n =
    (let k = int (length ds)
     in if k \<le> n \<and> n \<le> 21 then ds @ replicate (nat (n - k)) CHR ''0''
        else if 0 < n \<and> n \<le> 21 then take (nat n) ds @ ''.'' @ drop (nat n) ds
        else if - 6 < n \<and> n \<le> 0 then ''0.'' @ replicate (nat (- n)) CHR ''0'' @ ds
        else (case ds of
                [] \<Rightarrow> []
              | d # rest \<Rightarrow> (if rest = [] then [d] else d # CHR ''.'' # rest)
                            @ ''e'' @ (if 0 < n - 1 then ''+'' else ''-'')
                            @ show_digits \<bar>n - 1\<bar>))"

definition show_pos :: "int \<Rightarrow> int \<Rightarrow> string" where
  "show_pos p q = (let (s, n) = digits_of p q in show_point (show_digits s) n)"

text \<open>
  An integer up to \<open>2^53\<close> in magnitude is printed as its decimal digits; beyond, not
  every integer is a number, and the digits are those of the double it stands for.
\<close>

definition show_number :: "int \<Rightarrow> string" where
  "show_number n =
    (if \<bar>n\<bar> \<le> 2 ^ 53 then show_int n
     else (if n < 0 then ''-'' else []) @ show_pos \<bar>n\<bar> 1)"

definition show_frac :: "int \<Rightarrow> nat \<Rightarrow> string" where
  "show_frac m e = (if m < 0 then ''-'' else []) @ show_pos \<bar>m\<bar> (2 ^ e)"

text \<open>\<open>String(v)\<close>, also what a template literal \<open>`${v}`\<close> inserts.\<close>

fun ToString :: "jsval \<Rightarrow> string" where
  "ToString JUndefined = ''undefined''"
| "ToString JNull = ''null''"
| "ToString (JBool b) = (if b then ''true'' else ''false'')"
| "ToString (JNum n) = show_number n"
| "ToString (JFrac m e) = show_frac m e"
| "ToString JNaN = ''NaN''"
| "ToString (JInfinity s) = (if s then ''Infinity'' else ''-Infinity'')"
| "ToString (JStr s) = s"
| "ToString (JObj kvs) = ''[object Object]''"

subsection \<open>\<open>Number.parseInt(v, 10)\<close>\<close>

text \<open>
  The argument is printed, leading white space is dropped, one sign is read, and the
  longest prefix of decimal digits is the value; no digit at all gives \<open>NaN\<close>, here
  \<open>None\<close>. The result is the mathematical integer: JavaScript rounds it to a double, which
  changes no comparison with 1 and 9. White space, among the code units below 256, is tab,
  line feed, vertical tab, form feed, carriage return, space and the no-break space.
\<close>

definition is_ws :: "char \<Rightarrow> bool" where
  "is_ws c = (c \<in> set [CHR 0x09, CHR 0x0A, CHR 0x0B, CHR 0x0C, CHR 0x0D, CHR '' '', CHR 0xA0])"

definition is_digit :: "char \<Rightarrow> bool" where
  "is_digit c = (c \<in> set ''0123456789'')"

text \<open>The value of a digit is its place in the row of digits.\<close>

definition digit_val :: "char \<Rightarrow> int" where
  "digit_val c = int (length (takeWhile (\<lambda>d. d \<noteq> c) ''0123456789''))"

definition digits_val :: "string \<Rightarrow> int" where
  "digits_val z = foldl (\<lambda>a c. 10 * a + digit_val c) 0 z"

definition parseInt10 :: "string \<Rightarrow> int option" where
  "parseInt10 s =
    (let t = dropWhile is_ws s;
         neg = (case t of [] \<Rightarrow> False | c # r \<Rightarrow> c = CHR ''-'');
         u = (case t of [] \<Rightarrow> [] | c # r \<Rightarrow> if c = CHR ''+'' \<or> c = CHR ''-'' then r else t);
         z = takeWhile is_digit u
     in if z = [] then None
        else Some (if neg then - digits_val z else digits_val z))"

definition parseInt :: "jsval \<Rightarrow> int option" where
  "parseInt v = parseInt10 (ToString v)"

subsection \<open>Objects used as maps\<close>

text \<open>
  \<open>o[k]\<close> reads an own property of an object; of a string it reads \<open>length\<close> and the
  character at an index. What the prototypes add (their methods) is left out, and reads
  as \<open>undefined\<close>.
\<close>

definition isIndex :: "string \<Rightarrow> bool" where
  "isIndex k = (k \<noteq> [] \<and> list_all is_digit k \<and> (k = ''0'' \<or> hd k \<noteq> CHR ''0''))"

fun get_prop :: "jsval \<Rightarrow> string \<Rightarrow> jsval" where
  "get_prop (JObj kvs) k = (case map_of kvs k of None \<Rightarrow> JUndefined | Some v \<Rightarrow> v)"
| "get_prop (JStr s) k =
    (if k = ''length'' then JNum (int (length s))
     else if isIndex k \<and> digits_val k < int (length s) then JStr [s ! nat (digits_val k)]
     else JUndefined)"
| "get_prop v k = JUndefined"

text \<open>
  \<open>o[k] = n\<close> for a number \<open>n\<close>, and \<open>delete o[k]\<close>. On an object the write sets the own
  property \<open>k\<close>, with one exception: the key \<open>__proto__\<close>, when the object has no own
  property of that name, goes to the setter of the prototype, which ignores a number, so
  that nothing is stored. A value that is not an object is left as it is.
\<close>

fun set_prop :: "jsval \<Rightarrow> string \<Rightarrow> int \<Rightarrow> jsval" where
  "set_prop (JObj kvs) k n =
    (if k = ''__proto__'' \<and> map_of kvs k = None then JObj kvs
     else JObj (AList.update k (JNum n) kvs))"
| "set_prop x k n = x"

fun delete_prop :: "jsval \<Rightarrow> string \<Rightarrow> jsval" where
  "delete_prop (JObj kvs) k = JObj (AList.delete k kvs)"
| "delete_prop x k = x"

section \<open>The record store\<close>

type_synonym docid = string

record folder =
  folder_id :: docid
  folder_name :: string
  folder_type :: string
  folder_parent :: "docid option"

record item =
  item_id :: docid
  item_name :: string
  item_img :: string
  item_type :: string
  item_folder :: "docid option"
  item_container :: "docid option"
  item_containerId :: "docid option"
  item_flags :: "(string \<times> jsval) list"

record actor =
  actor_id :: docid
  actor_name :: string
  actor_items :: "item list"
  actor_spells :: "(string \<times> jsval) list"

record world =
  game_actors :: "actor list"
  game_items :: "item list"
  game_folders :: "folder list"
  game_user_name :: "string option"
  console :: "string list"
  chat :: "string list"

text \<open>A resolved document; an item comes with the id of the actor that owns it, if any.\<close>

datatype doc = DActor actor | DItem "docid option" item | DFolder folder

definition MODULE_ID :: string where
  "MODULE_ID = ''innovations-codex''"

definition CODEX_NAME :: string where
  "CODEX_NAME = ''Innovations Codex''"

definition SPELL_LEVEL_FOLDERS :: "string list" where
  "SPELL_LEVEL_FOLDERS =
    [''Uncategorized'',
     ''1st'', ''2nd'', ''3rd'', ''4th'', ''5th'', ''6th'', ''7th'', ''8th'', ''9th'']"

subsection \<open>Identifiers\<close>

fun splitOn :: "char \<Rightarrow> string \<Rightarrow> string list" where
  "splitOn c [] = [[]]"
| "splitOn c (x # xs) =
    (if x = c then [] # splitOn c xs
     else (case splitOn c xs of [] \<Rightarrow> [[x]] | y # ys \<Rightarrow> (x # y) # ys))"

definition actor_uuid :: "actor \<Rightarrow> string" where
  "actor_uuid a = ''Actor.'' @ actor_id a"

definition item_uuid :: "docid option \<Rightarrow> item \<Rightarrow> string" where
  "item_uuid p it =
    (case p of None \<Rightarrow> ''Item.'' @ item_id it
     | Some a \<Rightarrow> ''Actor.'' @ a @ ''.Item.'' @ item_id it)"

text \<open>
  Modelled from the spec: the Record Store's resolve-by-identifier (the platform's
  \<open>fromUuid\<close>), for the kinds of document this program resolves: a world actor
  \<open>Actor.<id>\<close>, a world item \<open>Item.<id>\<close>, an item owned by an actor
  \<open>Actor.<id>.Item.<id>\<close>, and a folder \<open>Folder.<id>\<close>. Anything else resolves to
  nothing.
\<close>

definition fromUuid :: "world \<Rightarrow> string \<Rightarrow> doc option" where
  "fromUuid w u =
    (case splitOn CHR ''.'' u of
       [t, i] \<Rightarrow>
         if t = ''Actor'' then map_option DActor (find (\<lambda>a. actor_id a = i) (game_actors w))
         else if t = ''Item'' then map_option (DItem None) (find (\<lambda>x. item_id x = i) (game_items w))
         else if t = ''Folder'' then map_option DFolder (find (\<lambda>f. folder_id f = i) (game_folders w))
         else None
     | [t, a, t', i] \<Rightarrow>
         if t = ''Actor'' \<and> t' = ''Item'' then
           (case find (\<lambda>x. actor_id x = a) (game_actors w) of
              None \<Rightarrow> None
            | Some act \<Rightarrow> map_option (DItem (Some a)) (find (\<lambda>x. item_id x = i) (actor_items act)))
         else None
     | _ \<Rightarrow> None)"

text \<open>
  Modelled from the spec: the Record Store's create gives the new document an identifier
  no document of the store has (the platform draws a random one). The model takes a
  string longer than every identifier in use.
\<close>

definition fresh_id :: "docid list \<Rightarrow> docid" where
  "fresh_id used = replicate (Suc (foldr (\<lambda>s m. max (length s) m) used 0)) CHR ''x''"

definition used_ids :: "world \<Rightarrow> docid list" where
  "used_ids w =
     map folder_id (game_folders w) @ map item_id (game_items w) @ map actor_id (game_actors w)
     @ concat (map (\<lambda>a. map item_id (actor_items a)) (game_actors w))"

subsection \<open>Reading and writing documents\<close>

text \<open>
  Modelled from the spec: the per-document flag map under the module's namespace; a
  missing flag reads as \<open>undefined\<close>, and a write overwrites that one entry.
\<close>

definition getFlag :: "item \<Rightarrow> string \<Rightarrow> jsval" where
  "getFlag it k = (case map_of (item_flags it) k of None \<Rightarrow> JUndefined | Some v \<Rightarrow> v)"

definition setFlag :: "item \<Rightarrow> string \<Rightarrow> jsval \<Rightarrow> item" where
  "setFlag it k v = it\<lparr>item_flags := AList.update k v (item_flags it)\<rparr>"

text \<open>The first element that satisfies \<open>P\<close>, which is the one \<open>find\<close> returns, is replaced.\<close>

fun update_first :: "('a \<Rightarrow> bool) \<Rightarrow> ('a \<Rightarrow> 'a) \<Rightarrow> 'a list \<Rightarrow> 'a list" where
  "update_first P f [] = []"
| "update_first P f (x # xs) = (if P x then f x # xs else x # update_first P f xs)"

text \<open>
  Modelled from the spec: the Record Store's update, create and delete. An update
  changes the addressed document in place; a create appends the document under a fresh
  identifier; a delete removes the document with the given identifier from its
  collection.
\<close>

definition update_actor :: "docid \<Rightarrow> (actor \<Rightarrow> actor) \<Rightarrow> world \<Rightarrow> world" where
  "update_actor a f w = w\<lparr>game_actors := update_first (\<lambda>x. actor_id x = a) f (game_actors w)\<rparr>"

definition update_item :: "docid option \<Rightarrow> docid \<Rightarrow> (item \<Rightarrow> item) \<Rightarrow> world \<Rightarrow> world" where
  "update_item p i f w =
    (case p of
       None \<Rightarrow> w\<lparr>game_items := update_first (\<lambda>x. item_id x = i) f (game_items w)\<rparr>
     | Some a \<Rightarrow>
         update_actor a
           (\<lambda>act. act\<lparr>actor_items := update_first (\<lambda>x. item_id x = i) f (actor_items act)\<rparr>) w)"

definition createEmbeddedItem :: "docid \<Rightarrow> item \<Rightarrow> world \<Rightarrow> item \<times> world" where
  "createEmbeddedItem a itemData w =
    (let created = itemData\<lparr>item_id := fresh_id (used_ids w)\<rparr>
     in (created, update_actor a (\<lambda>act. act\<lparr>actor_items := actor_items act @ [created]\<rparr>) w))"

definition deleteEmbeddedItem :: "docid \<Rightarrow> docid \<Rightarrow> world \<Rightarrow> world" where
  "deleteEmbeddedItem a i w =
    update_actor a (\<lambda>act. act\<lparr>actor_items := filter (\<lambda>x. item_id x \<noteq> i) (actor_items act)\<rparr>) w"

definition createItem :: "item \<Rightarrow> world \<Rightarrow> item \<times> world" where
  "createItem itemData w =
    (let created = itemData\<lparr>item_id := fresh_id (used_ids w)\<rparr>
     in (created, w\<lparr>game_items := game_items w @ [created]\<rparr>))"

definition deleteItem :: "docid \<Rightarrow> world \<Rightarrow> world" where
  "deleteItem i w = w\<lparr>game_items := filter (\<lambda>x. item_id x \<noteq> i) (game_items w)\<rparr>"

definition createFolder :: "string \<Rightarrow> string \<Rightarrow> docid option \<Rightarrow> world \<Rightarrow> folder \<times> world" where
  "createFolder name type parent w =
    (let created = \<lparr>folder_id = fresh_id (used_ids w), folder_name = name,
                    folder_type = type, folder_parent = parent\<rparr>
     in (created, w\<lparr>game_folders := game_folders w @ [created]\<rparr>))"

definition deleteFolder :: "folder \<Rightarrow> world \<Rightarrow> world" where
  "deleteFolder f w =
    w\<lparr>game_folders := filter (\<lambda>g. folder_id g \<noteq> folder_id f) (game_folders w)\<rparr>"

definition log_line :: "string \<Rightarrow> world \<Rightarrow> world" where
  "log_line msg w = w\<lparr>console := console w @ [msg]\<rparr>"


section \<open>Privileged operations of the executor\<close>



text \<open>
  The owner's resource pool: the value at \<open>system.spells.spell<level>.value\<close>. The actor
  keeps its pools keyed by the segment \<open>spell<level>\<close>; a missing path reads as
  \<open>undefined\<close>.
\<close>

definition slotKey :: "int \<Rightarrow> string" where
  "slotKey slotLevel = ''spell'' @ show_number slotLevel"

definition getSlots :: "actor \<Rightarrow> int \<Rightarrow> jsval" where
  "getSlots a slotLevel =
    (case map_of (actor_spells a) (slotKey slotLevel) of None \<Rightarrow> JUndefined | Some v \<Rightarrow> v)"

definition setSlots :: "int \<Rightarrow> jsval \<Rightarrow> actor \<Rightarrow> actor" where
  "setSlots slotLevel v a = a\<lparr>actor_spells := AList.update (slotKey slotLevel) v (actor_spells a)\<rparr>"

text \<open>\<open>v <= 0\<close> and \<open>v - 1\<close>, for a finite number \<open>v\<close>.\<close>

fun lessEqZero :: "jsval \<Rightarrow> bool" where
  "lessEqZero (JNum n) = (n \<le> 0)"
| "lessEqZero (JFrac m e) = (m \<le> 0)"
| "lessEqZero v = False"

fun minusOne :: "jsval \<Rightarrow> jsval" where
  "minusOne (JNum n) = toNumber (n - 1) 1"
| "minusOne (JFrac m e) = toNumber (m - 2 ^ e) (2 ^ e)"
| "minusOne v = JNaN"

definition gmFabricate ::
  "world \<Rightarrow> string \<Rightarrow> string \<Rightarrow> string \<Rightarrow> jsval \<Rightarrow> int \<Rightarrow> bool \<times> world" where
  "gmFabricate w ownerActorUuid targetActorUuid blueprintUuid codexUuid slotLevel =
    (case (fromUuid w ownerActorUuid, fromUuid w targetActorUuid, fromUuid w blueprintUuid) of
       (Some (DActor ownerActor), Some (DActor targetActor), Some (DItem p blueprint)) \<Rightarrow>
         (let currentSlots = getSlots ownerActor slotLevel in
          if \<not> isFinite currentSlots \<or> lessEqZero currentSlots then (False, w)
          else
            (let w1 = update_actor (actor_id ownerActor)
                        (setSlots slotLevel (minusOne currentSlots)) w;
                 itemData = blueprint\<lparr>
                   item_name := ''Temporary '' @ item_name blueprint,
                   item_container := None, item_containerId := None,
                   item_flags := AList.update ''isTemporary'' (JBool True)
                     (AList.update ''originUuid'' codexUuid (item_flags blueprint))\<rparr>
             in (True, snd (createEmbeddedItem (actor_id targetActor) itemData w1))))
     | _ \<Rightarrow> (False, w))"

definition gmRecall :: "world \<Rightarrow> string \<Rightarrow> jsval \<Rightarrow> bool \<times> world" where
  "gmRecall w itemUuid codexUuid =
    (case fromUuid w itemUuid of
       Some (DItem parent it) \<Rightarrow>
         (let originUuid = getFlag it ''originUuid'' in
          if \<not> strict_eq originUuid codexUuid then (False, w)
          else (case parent of
                  Some a \<Rightarrow> (True, deleteEmbeddedItem a (item_id it) w)
                | None \<Rightarrow> (True, deleteItem (item_id it) w)))
     | _ \<Rightarrow> (False, w))"

definition gmSetFlag :: "world \<Rightarrow> string \<Rightarrow> string \<Rightarrow> jsval \<Rightarrow> world" where
  "gmSetFlag w itemUuid flagKey flagValue =
    (case fromUuid w itemUuid of
       Some (DItem p it) \<Rightarrow> update_item p (item_id it) (\<lambda>x. setFlag x flagKey flagValue) w
     | _ \<Rightarrow> w)"

text \<open>A category is \<open>null\<close> or a number; \<open>None\<close> is \<open>null\<close>.\<close>

definition level_val :: "int option \<Rightarrow> jsval" where
  "level_val level = (case level of None \<Rightarrow> JNull | Some n \<Rightarrow> JNum n)"

definition noParent :: "folder \<Rightarrow> bool" where
  "noParent f = (case folder_parent f of None \<Rightarrow> True | Some p \<Rightarrow> p = [])"

definition getSpellLevelFolder :: "world \<Rightarrow> int option \<Rightarrow> folder option" where
  "getSpellLevelFolder w level =
    (case find (\<lambda>f. folder_name f = CODEX_NAME \<and> folder_type f = ''Item'' \<and> noParent f)
            (game_folders w) of
       None \<Rightarrow> None
     | Some rootFolder \<Rightarrow>
         (let folderName =
                (case level of
                   None \<Rightarrow> ''Uncategorized''
                 | Some n \<Rightarrow> if 1 \<le> n \<and> n \<le> 9 then SPELL_LEVEL_FOLDERS ! nat n
                             else ''Uncategorized'')
          in find (\<lambda>f. folder_name f = folderName \<and> folder_type f = ''Item''
                        \<and> folder_parent f = Some (folder_id rootFolder))
               (game_folders w)))"

definition isMirrorOf :: "string \<Rightarrow> item \<Rightarrow> bool" where
  "isMirrorOf actorItemUuid i = strict_eq (getFlag i ''mirrorOf'') (JStr actorItemUuid)"

definition gmMirror :: "world \<Rightarrow> item \<Rightarrow> string \<Rightarrow> int option \<Rightarrow> world" where
  "gmMirror w itemData actorItemUuid level =
    (case getSpellLevelFolder w level of
       None \<Rightarrow>
         log_line (MODULE_ID @ '' | _gmMirror: folder not found for level ''
                   @ ToString (level_val level)) w
     | Some folder \<Rightarrow>
         (case find (isMirrorOf actorItemUuid) (game_items w) of
            Some mirrorItem \<Rightarrow>
              (let w1 = (if item_folder mirrorItem \<noteq> Some (folder_id folder)
                         then w\<lparr>game_items := update_first (isMirrorOf actorItemUuid)
                                  (\<lambda>m. m\<lparr>item_folder := Some (folder_id folder)\<rparr>)
                                  (game_items w)\<rparr>
                         else w)
               in w1\<lparr>game_items := update_first (isMirrorOf actorItemUuid)
                        (\<lambda>m. m\<lparr>item_name := item_name itemData, item_img := item_img itemData\<rparr>)
                        (game_items w1)\<rparr>)
          | None \<Rightarrow>
              (let mirrorData = itemData\<lparr>
                     item_folder := Some (folder_id folder),
                     item_container := None, item_containerId := None,
                     item_flags := AList.update ''spellLevel'' (level_val level)
                       (AList.update ''mirrorOf'' (JStr actorItemUuid) (item_flags itemData))\<rparr>
               in snd (createItem mirrorData w))))"

definition gmNotify :: "world \<Rightarrow> string \<Rightarrow> world" where
  "gmNotify w message = w\<lparr>chat := chat w @ [''<strong>'' @ MODULE_ID @ ''</strong> | '' @ message]\<rparr>"

section \<open>Category folders\<close>

definition isFolderEmpty :: "world \<Rightarrow> folder \<Rightarrow> bool" where
  "isFolderEmpty w f =
    (\<not> list_ex (\<lambda>it. item_folder it = Some (folder_id f)) (game_items w)
     \<and> \<not> list_ex (\<lambda>child. folder_parent child = Some (folder_id f)) (game_folders w))"

text \<open>
  The three clean-up loops of the pass have one shape: for each folder of a list taken
  beforehand, test it against the store as it is now, and delete it if it is empty.
\<close>

fun deleteEmptyFolders :: "(folder \<Rightarrow> string) \<Rightarrow> folder list \<Rightarrow> world \<Rightarrow> world" where
  "deleteEmptyFolders msg [] w = w"
| "deleteEmptyFolders msg (d # ds) w =
    deleteEmptyFolders msg ds
      (if isFolderEmpty w d then deleteFolder d (log_line (msg d) w) else w)"

definition isRootCandidate :: "folder \<Rightarrow> bool" where
  "isRootCandidate f = (folder_name f = CODEX_NAME \<and> folder_type f = ''Item'' \<and> noParent f)"

definition isSubfolder :: "folder \<Rightarrow> string \<Rightarrow> folder \<Rightarrow> bool" where
  "isSubfolder rootFolder name f =
    (folder_name f = name \<and> folder_type f = ''Item''
     \<and> folder_parent f = Some (folder_id rootFolder))"

definition isStray :: "string \<Rightarrow> folder \<Rightarrow> bool" where
  "isStray name f = (folder_name f = name \<and> folder_type f = ''Item'' \<and> noParent f)"

definition ensureRoot :: "world \<Rightarrow> folder \<times> world" where
  "ensureRoot w =
    (case filter isRootCandidate (game_folders w) of
       rootFolder # dupes \<Rightarrow>
         (rootFolder,
          deleteEmptyFolders
            (\<lambda>dupe. MODULE_ID @ '' | Deleting duplicate empty root folder: '' @ folder_id dupe)
            dupes w)
     | [] \<Rightarrow>
         (let (rootFolder, w') = createFolder CODEX_NAME ''Item'' None w
          in (rootFolder,
              log_line (MODULE_ID @ '' | Created root folder: '' @ folder_name rootFolder
                        @ '' ('' @ folder_id rootFolder @ '')'') w')))"

definition ensureSubfolder :: "folder \<Rightarrow> world \<Rightarrow> string \<Rightarrow> world" where
  "ensureSubfolder rootFolder w name =
    (let matches = filter (isSubfolder rootFolder name) (game_folders w);
         w1 = (if length matches > 1
               then deleteEmptyFolders
                      (\<lambda>m. MODULE_ID @ '' | Deleting duplicate empty subfolder \"'' @ name
                            @ ''\": '' @ folder_id m)
                      (tl matches) w
               else w)
     in if length matches = 0
        then (let (sub, w2) = createFolder name ''Item'' (Some (folder_id rootFolder)) w1
              in log_line (MODULE_ID @ '' | Created subfolder: '' @ folder_name sub
                           @ '' inside '' @ folder_name rootFolder) w2)
        else w1)"

definition cleanStrays :: "world \<Rightarrow> string \<Rightarrow> world" where
  "cleanStrays w name =
    deleteEmptyFolders
      (\<lambda>stray. MODULE_ID @ '' | Deleting stray root-level folder \"'' @ name @ ''\": ''
                @ folder_id stray)
      (filter (isStray name) (game_folders w)) w"

definition ensureFolderHierarchy :: "world \<Rightarrow> folder \<times> world" where
  "ensureFolderHierarchy w =
    (let (rootFolder, w1) = ensureRoot w;
         w2 = foldl (ensureSubfolder rootFolder) w1 SPELL_LEVEL_FOLDERS;
         w3 = foldl cleanStrays w2 SPELL_LEVEL_FOLDERS
     in (rootFolder, w3))"

section \<open>Category assignment\<close>

definition inRange :: "int option \<Rightarrow> bool" where
  "inRange x = (case x of None \<Rightarrow> False | Some n \<Rightarrow> 1 \<le> n \<and> n \<le> 9)"

text \<open>
  \<open>getSlotLevel(codex, blueprint)\<close>; either argument may be missing. A blueprint is an
  item with the id of its owner, from which its uuid is made.
\<close>

definition getSlotLevel :: "item option \<Rightarrow> (docid option \<times> item) option \<Rightarrow> int option" where
  "getSlotLevel codex blueprint =
    (case (codex, blueprint) of
       (Some c, Some (p, b)) \<Rightarrow>
         (let uuidMap = coalesce (getFlag c ''slotLevelsByUuid'') (JObj []);
              nameMap = coalesce (getFlag c ''slotLevelsByName'') (JObj []);
              fromUuidVal = parseInt (get_prop uuidMap (item_uuid p b))
          in if inRange fromUuidVal then fromUuidVal
             else
               (let fromName = parseInt (get_prop nameMap (item_name b))
                in if inRange fromName then fromName
                   else
                     (let itemLevel = getFlag b ''spellLevel''
                      in if itemLevel \<noteq> JNull \<and> itemLevel \<noteq> JUndefined
                         then (let parsed = parseInt itemLevel
                               in if inRange parsed then parsed else None)
                         else None)))
     | _ \<Rightarrow> None)"

text \<open>
  The first lines of \<open>setSlotLevelForBlueprint\<close>: \<open>None\<close> is the early return of a
  rejected input, \<open>Some None\<close> is uncategorized, \<open>Some (Some n)\<close> is category \<open>n\<close>.
\<close>

definition normalizedLevel :: "jsval \<Rightarrow> int option option" where
  "normalizedLevel level =
    (if level = JNull \<or> level = JStr [] \<or> level = JStr ''0'' \<or> level = JNum 0 then Some None
     else (case parseInt level of
             None \<Rightarrow> None
           | Some n \<Rightarrow> if n < 1 \<or> n > 9 then None else Some (Some n)))"

text \<open>The document as the store holds it now: what \<open>toObject()\<close> reads.\<close>

definition liveItem :: "world \<Rightarrow> docid option \<Rightarrow> item \<Rightarrow> item" where
  "liveItem w p it =
    (case fromUuid w (item_uuid p it) of Some (DItem q x) \<Rightarrow> x | _ \<Rightarrow> it)"

definition actorNameOf :: "world \<Rightarrow> docid option \<Rightarrow> string" where
  "actorNameOf w p =
    (case p of
       None \<Rightarrow> ''Unknown Actor''
     | Some a \<Rightarrow> (case find (\<lambda>x. actor_id x = a) (game_actors w) of
                   None \<Rightarrow> ''Unknown Actor'' | Some act \<Rightarrow> actor_name act))"

text \<open>
  \<open>setSlotLevelForBlueprint(codex, blueprint, level)\<close>. The two documents are given by
  their uuids and read from the store; one that does not resolve to an item is the
  missing argument of the first line.
\<close>

definition setSlotLevelForBlueprint :: "world \<Rightarrow> string \<Rightarrow> string \<Rightarrow> jsval \<Rightarrow> world" where
  "setSlotLevelForBlueprint w codexRef blueprintRef level =
    (case (fromUuid w codexRef, fromUuid w blueprintRef) of
       (Some (DItem cp codex), Some (DItem bp blueprint)) \<Rightarrow>
         (case normalizedLevel level of
            None \<Rightarrow> w
          | Some nl \<Rightarrow>
              (let blueprintUuid = item_uuid bp blueprint;
                   blueprintName = item_name blueprint;
                   uuidMap = coalesce (getFlag codex ''slotLevelsByUuid'') (JObj []);
                   nameMap = coalesce (getFlag codex ''slotLevelsByName'') (JObj []);
                   uuidMap' = (case nl of
                                 None \<Rightarrow> delete_prop uuidMap blueprintUuid
                               | Some n \<Rightarrow> set_prop uuidMap blueprintUuid n);
                   nameMap' = (if blueprintName \<noteq> []
                               then (case nl of
                                       None \<Rightarrow> delete_prop nameMap blueprintName
                                     | Some n \<Rightarrow> set_prop nameMap blueprintName n)
                               else nameMap);
                   w1 = gmSetFlag w (item_uuid cp codex) ''slotLevelsByUuid'' uuidMap';
                   w2 = gmSetFlag w1 (item_uuid cp codex) ''slotLevelsByName'' nameMap';
                   w3 = gmSetFlag w2 blueprintUuid ''spellLevel'' (level_val nl);
                   w4 = gmMirror w3 (liveItem w3 bp blueprint) blueprintUuid nl;
                   actorName = actorNameOf w4 cp;
                   userName = (case game_user_name w4 of None \<Rightarrow> ''Unknown User'' | Some u \<Rightarrow> u);
                   levelLabel = (case nl of None \<Rightarrow> ''Uncategorized''
                                 | Some n \<Rightarrow> ''Level '' @ show_number n)
               in gmNotify w4
                    (''<strong>'' @ userName @ ''</strong>'' @ [CHR 0x27] @ ''s character <strong>''
                     @ actorName @ ''</strong> assigned <strong>'' @ item_name blueprint
                     @ ''</strong> to <strong>'' @ levelLabel @ ''</strong>'')))
     | _ \<Rightarrow> w)"


text \<open>
  Two predicates for stating what the assignment maps hold: a flag value that can serve
  as a map (an object, or a missing flag, which reads as the empty object), and whether an
  object has an own property.
\<close>

fun isMap :: "jsval \<Rightarrow> bool" where
  "isMap (JObj kvs) = True"
| "isMap JUndefined = True"
| "isMap JNull = True"
| "isMap v = False"

fun has_prop :: "jsval \<Rightarrow> string \<Rightarrow> bool" where
  "has_prop (JObj kvs) k = (k \<in> set (map fst kvs))"
| "has_prop v k = False"

text \<open>
  The store keeps folder identifiers distinct and non-empty.
\<close>

definition wf_folders :: "world \<Rightarrow> bool" where
  "wf_folders w =
    (distinct (map folder_id (game_folders w)) \<and> [] \<notin> set (map folder_id (game_folders w)))"

text \<open>
  One step of the repair pass, seen from outside: the items stay, some folders of a class
  \<open>T\<close> that were empty are gone, and new folders of that class may have been appended
  under identifiers that were not in use.
\<close>

definition repair_step :: "(folder \<Rightarrow> bool) \<Rightarrow> world \<Rightarrow> world \<Rightarrow> bool" where
  "repair_step T w w' =
    (game_items w' = game_items w
     \<and> (\<exists>D N. game_folders w' = filter (\<lambda>g. g \<notin> D) (game_folders w) @ N
            \<and> (\<forall>d\<in>D. T d \<and> d \<in> set (game_folders w) \<and> isFolderEmpty w d)
            \<and> (\<forall>n\<in>set N. T n \<and> folder_id n \<noteq> []
                          \<and> folder_id n \<notin> set (map folder_id (game_folders w)))
            \<and> distinct (map folder_id N)))"

text \<open>
  The state the repair pass leaves: a first root candidate and, below it, a first folder
  for each category name, with every further candidate, duplicate and stray non-empty.
\<close>

definition repaired :: "folder \<Rightarrow> world \<Rightarrow> bool" where
  "repaired r w =
    ((case filter isRootCandidate (game_folders w) of
        [] \<Rightarrow> False
      | r' # dupes \<Rightarrow> r' = r \<and> list_all (\<lambda>d. \<not> isFolderEmpty w d) dupes)
     \<and> list_all (\<lambda>name. case filter (isSubfolder r name) (game_folders w) of
                           [] \<Rightarrow> False
                         | m # ms \<Rightarrow> list_all (\<lambda>d. \<not> isFolderEmpty w d) ms)
         SPELL_LEVEL_FOLDERS
     \<and> list_all (\<lambda>name. list_all (\<lambda>s. \<not> isFolderEmpty w s)
                           (filter (isStray name) (game_folders w)))
         SPELL_LEVEL_FOLDERS)"

section \<open>A small world\<close>

text \<open>
  An owner \<open>a1\<close> with a codex and three blueprints, a target \<open>a2\<close> holding one fabricated
  copy, the codex template and one mirror among the world items, and a folder tree with
  the root and the first three category folders.
\<close>

definition demo_codex :: item where
  "demo_codex = \<lparr>item_id = ''c1'', item_name = ''Innovations Codex'', item_img = ''book.webp'',
     item_type = ''container'', item_folder = None, item_container = None,
     item_containerId = None,
     item_flags = [(''isCodex'', JBool True),
                   (''slotLevelsByUuid'', JObj [(''Actor.a1.Item.b1'', JNum 1)]),
                   (''slotLevelsByName'', JObj [(''Bolt Thrower'', JNum 1)])]\<rparr>"

definition demo_blueprint :: item where
  "demo_blueprint = \<lparr>item_id = ''b1'', item_name = ''Bolt Thrower'', item_img = ''bolt.webp'',
     item_type = ''weapon'', item_folder = None, item_container = Some ''c1'',
     item_containerId = None,
     item_flags = [(''isInnovation'', JBool True), (''spellLevel'', JNum 1),
                   (''createdBy'', JStr ''Actor.a1'')]\<rparr>"

definition demo_unlisted :: item where
  "demo_unlisted = \<lparr>item_id = ''b2'', item_name = ''Spark Lens'', item_img = ''lens.webp'',
     item_type = ''tool'', item_folder = None, item_container = Some ''c1'',
     item_containerId = None,
     item_flags = [(''isInnovation'', JBool True), (''spellLevel'', JNum 4),
                   (''createdBy'', JStr ''Actor.a1'')]\<rparr>"

definition demo_nameless :: item where
  "demo_nameless = \<lparr>item_id = ''b3'', item_name = [], item_img = ''blank.webp'',
     item_type = ''loot'', item_folder = None, item_container = Some ''c1'',
     item_containerId = None,
     item_flags = [(''isInnovation'', JBool True), (''spellLevel'', JNull),
                   (''createdBy'', JStr ''Actor.a1'')]\<rparr>"

definition demo_temporary :: item where
  "demo_temporary = \<lparr>item_id = ''t1'', item_name = ''Temporary Bolt Thrower'',
     item_img = ''bolt.webp'', item_type = ''weapon'', item_folder = None,
     item_container = None, item_containerId = None,
     item_flags = [(''isInnovation'', JBool True), (''spellLevel'', JNum 1),
                   (''createdBy'', JStr ''Actor.a1''),
                   (''originUuid'', JStr ''Actor.a1.Item.c1''),
                   (''isTemporary'', JBool True)]\<rparr>"

definition demo_owner :: actor where
  "demo_owner = \<lparr>actor_id = ''a1'', actor_name = ''Ada'',
     actor_items = [demo_codex, demo_blueprint, demo_unlisted, demo_nameless],
     actor_spells = [(''spell1'', JNum 2), (''spell3'', JNum 0)]\<rparr>"

definition demo_target :: actor where
  "demo_target = \<lparr>actor_id = ''a2'', actor_name = ''Bram'',
     actor_items = [demo_temporary], actor_spells = []\<rparr>"

definition demo_stranger :: actor where
  "demo_stranger = \<lparr>actor_id = ''a3'', actor_name = ''Cleo'',
     actor_items = [], actor_spells = []\<rparr>"

definition demo_template :: item where
  "demo_template = \<lparr>item_id = ''tpl'', item_name = ''Innovations Codex'',
     item_img = ''book.webp'', item_type = ''container'', item_folder = Some ''r'',
     item_container = None, item_containerId = None,
     item_flags = [(''isCodex'', JBool True)]\<rparr>"

definition demo_mirror :: item where
  "demo_mirror = \<lparr>item_id = ''m1'', item_name = ''Bolt Thrower'', item_img = ''bolt.webp'',
     item_type = ''weapon'', item_folder = Some ''f1'', item_container = None,
     item_containerId = None,
     item_flags = [(''isInnovation'', JBool True), (''spellLevel'', JNum 1),
                   (''createdBy'', JStr ''Actor.a1''),
                   (''mirrorOf'', JStr ''Actor.a1.Item.b1'')]\<rparr>"

definition demo_root :: folder where
  "demo_root = \<lparr>folder_id = ''r'', folder_name = ''Innovations Codex'',
     folder_type = ''Item'', folder_parent = None\<rparr>"

definition demo_sub :: "docid \<Rightarrow> string \<Rightarrow> folder" where
  "demo_sub i name = \<lparr>folder_id = i, folder_name = name, folder_type = ''Item'',
     folder_parent = Some ''r''\<rparr>"

definition demo_world :: world where
  "demo_world = \<lparr>game_actors = [demo_owner, demo_target, demo_stranger],
     game_items = [demo_template, demo_mirror],
     game_folders = [demo_root, demo_sub ''f0'' ''Uncategorized'', demo_sub ''f1'' ''1st'',
                     demo_sub ''f2'' ''2nd''],
     game_user_name = Some ''Dana'', console = [], chat = []\<rparr>"

text \<open>
  A cluttered folder list: a second root candidate that is empty and a third that holds an
  item, an empty and a non-empty duplicate of the \<open>1st\<close> folder, and two strays at root
  level, one of them holding an item.
\<close>

definition demo_folder :: "docid \<Rightarrow> string \<Rightarrow> docid option \<Rightarrow> folder" where
  "demo_folder i name parent =
    \<lparr>folder_id = i, folder_name = name, folder_type = ''Item'', folder_parent = parent\<rparr>"

definition demo_clutter :: world where
  "demo_clutter = \<lparr>game_actors = [],
     game_items = [demo_template\<lparr>item_folder := Some ''r3''\<rparr>,
                   demo_mirror\<lparr>item_folder := Some ''s2''\<rparr>],
     game_folders =
       [demo_folder ''r'' ''Innovations Codex'' None,
        demo_folder ''r2'' ''Innovations Codex'' None,
        demo_folder ''r3'' ''Innovations Codex'' None,
        demo_folder ''f0'' ''Uncategorized'' (Some ''r''),
        demo_folder ''f1'' ''1st'' (Some ''r''),
        demo_folder ''f1b'' ''1st'' (Some ''r''),
        demo_folder ''f1c'' ''1st'' (Some ''r''),
        demo_folder ''x'' ''Notes'' (Some ''f1c''),
        demo_folder ''s1'' ''2nd'' None,
        demo_folder ''s2'' ''3rd'' None],
     game_user_name = Some ''Dana'', console = [], chat = []\<rparr>"

section \<open>Lists and identifiers\<close>

lemma find_update_first:
  "(\<And>x. P x \<Longrightarrow> P (f x)) \<Longrightarrow> find P (update_first P f xs) = map_option f (find P xs)"
  by (induction xs) auto

lemma find_filter_other:
  "find (\<lambda>x. k x = i) (filter (\<lambda>x. k x \<noteq> i) xs) = None"
  by (induction xs) auto

lemma find_SomeD: "find P xs = Some x \<Longrightarrow> P x \<and> x \<in> set xs"
  by (induction xs) (auto split: if_splits)

lemma fromUuid_item_cases:
  assumes "fromUuid w u = Some (DItem p it)"
  shows "(p = None \<and> (\<exists>i. splitOn CHR ''.'' u = [''Item'', i]
             \<and> find (\<lambda>x. item_id x = i) (game_items w) = Some it))
       \<or> (\<exists>a i act. p = Some a \<and> splitOn CHR ''.'' u = [''Actor'', a, ''Item'', i]
             \<and> find (\<lambda>x. actor_id x = a) (game_actors w) = Some act
             \<and> find (\<lambda>x. item_id x = i) (actor_items act) = Some it)"
  using assms unfolding fromUuid_def
  by (auto split: list.splits if_splits option.splits)

section \<open>Recall\<close>

lemma recall_not_item:
  assumes "\<forall>p it. fromUuid w itemUuid \<noteq> Some (DItem p it)"
  shows "gmRecall w itemUuid codexUuid = (False, w)"
  using assms unfolding gmRecall_def by (auto split: option.splits doc.splits)

lemma recall_mismatch:
  assumes "fromUuid w itemUuid = Some (DItem p it)"
    and "\<not> strict_eq (getFlag it ''originUuid'') codexUuid"
  shows "gmRecall w itemUuid codexUuid = (False, w)"
  using assms unfolding gmRecall_def by simp

lemma recall_match:
  assumes "fromUuid w itemUuid = Some (DItem p it)"
    and "strict_eq (getFlag it ''originUuid'') codexUuid"
  shows "gmRecall w itemUuid codexUuid =
          (True, case p of Some a \<Rightarrow> deleteEmbeddedItem a (item_id it) w
                 | None \<Rightarrow> deleteItem (item_id it) w)"
  using assms unfolding gmRecall_def by (simp split: option.splits)

lemma recall_deleted:
  assumes "fromUuid w u = Some (DItem p it)"
  shows "fromUuid (case p of Some a \<Rightarrow> deleteEmbeddedItem a (item_id it) w
                   | None \<Rightarrow> deleteItem (item_id it) w) u = None"
proof -
  from fromUuid_item_cases[OF assms] show ?thesis
  proof (elim disjE conjE exE)
    fix i assume h: "p = None" "splitOn CHR ''.'' u = [''Item'', i]"
      "find (\<lambda>x. item_id x = i) (game_items w) = Some it"
    then have "item_id it = i" by (auto dest: find_SomeD)
    with h show ?thesis
      by (simp add: fromUuid_def deleteItem_def find_filter_other)
  next
    fix a i act assume h: "p = Some a" "splitOn CHR ''.'' u = [''Actor'', a, ''Item'', i]"
      "find (\<lambda>x. actor_id x = a) (game_actors w) = Some act"
      "find (\<lambda>x. item_id x = i) (actor_items act) = Some it"
    then have "item_id it = i" by (auto dest: find_SomeD)
    with h show ?thesis
      by (simp add: fromUuid_def deleteEmbeddedItem_def update_actor_def
            find_update_first find_filter_other)
  qed
qed

text \<open>
  C1. A recall of a reference that is no item, or of an item whose \<open>originUuid\<close> flag is
  not strictly equal to the container reference presented, returns false and leaves the
  world as it was. When the flag equals the reference, the item is deleted from the actor
  that owns it, or from the world items if no actor does, the result is true, and the
  reference no longer resolves.
\<close>

theorem recall_authorization:
  "((\<forall>p it. fromUuid w itemUuid \<noteq> Some (DItem p it))
      \<longrightarrow> gmRecall w itemUuid codexUuid = (False, w))
   \<and> (\<forall>p it. fromUuid w itemUuid = Some (DItem p it)
          \<and> \<not> strict_eq (getFlag it ''originUuid'') codexUuid
      \<longrightarrow> gmRecall w itemUuid codexUuid = (False, w))
   \<and> (\<forall>p it. fromUuid w itemUuid = Some (DItem p it)
          \<and> strict_eq (getFlag it ''originUuid'') codexUuid
      \<longrightarrow> gmRecall w itemUuid codexUuid =
            (True, case p of Some a \<Rightarrow> deleteEmbeddedItem a (item_id it) w
                   | None \<Rightarrow> deleteItem (item_id it) w)
          \<and> fromUuid (snd (gmRecall w itemUuid codexUuid)) itemUuid = None)"
  using recall_not_item recall_mismatch recall_match recall_deleted
  by (intro conjI allI impI) (simp_all del: split_paired_All)

theorem recall_authorization_witness:
  "(\<forall>p it. fromUuid demo_world ''Actor.a2.Item.zz'' \<noteq> Some (DItem p it))
   \<and> gmRecall demo_world ''Actor.a2.Item.zz'' (JStr ''Actor.a1.Item.c1'') = (False, demo_world)
   \<and> fromUuid demo_world ''Actor.a2.Item.t1'' = Some (DItem (Some ''a2'') demo_temporary)
   \<and> \<not> strict_eq (getFlag demo_temporary ''originUuid'') (JStr ''Actor.a3.Item.c9'')
   \<and> gmRecall demo_world ''Actor.a2.Item.t1'' (JStr ''Actor.a3.Item.c9'') = (False, demo_world)
   \<and> strict_eq (getFlag demo_temporary ''originUuid'') (JStr ''Actor.a1.Item.c1'')
   \<and> gmRecall demo_world ''Actor.a2.Item.t1'' (JStr ''Actor.a1.Item.c1'') =
        (True, deleteEmbeddedItem ''a2'' ''t1'' demo_world)
   \<and> fromUuid (snd (gmRecall demo_world ''Actor.a2.Item.t1'' (JStr ''Actor.a1.Item.c1'')))
        ''Actor.a2.Item.t1'' = None"
proof -
  have a: "\<forall>p it. fromUuid demo_world ''Actor.a2.Item.zz'' \<noteq> Some (DItem p it)"
  proof -
    have "fromUuid demo_world ''Actor.a2.Item.zz'' = None" by code_simp
    then show ?thesis by simp
  qed
  have b: "fromUuid demo_world ''Actor.a2.Item.t1'' = Some (DItem (Some ''a2'') demo_temporary)"
    by code_simp
  have c: "\<not> strict_eq (getFlag demo_temporary ''originUuid'') (JStr ''Actor.a3.Item.c9'')"
    by code_simp
  have d: "strict_eq (getFlag demo_temporary ''originUuid'') (JStr ''Actor.a1.Item.c1'')"
    by code_simp
  have i: "item_id demo_temporary = ''t1''" by (simp add: demo_temporary_def)
  note t1 = recall_authorization[of demo_world "''Actor.a2.Item.zz''" "JStr ''Actor.a1.Item.c1''"]
  note t2 = recall_authorization[of demo_world "''Actor.a2.Item.t1''" "JStr ''Actor.a3.Item.c9''"]
  note t3 = recall_authorization[of demo_world "''Actor.a2.Item.t1''" "JStr ''Actor.a1.Item.c1''"]
  from t1 a have r1: "gmRecall demo_world ''Actor.a2.Item.zz'' (JStr ''Actor.a1.Item.c1'') = (False, demo_world)"
    by blast
  from t2 b c have r2: "gmRecall demo_world ''Actor.a2.Item.t1'' (JStr ''Actor.a3.Item.c9'') = (False, demo_world)"
    by blast
  from t3 b d have r3: "gmRecall demo_world ''Actor.a2.Item.t1'' (JStr ''Actor.a1.Item.c1'') =
        (True, case Some ''a2'' of Some a \<Rightarrow> deleteEmbeddedItem a (item_id demo_temporary) demo_world
                   | None \<Rightarrow> deleteItem (item_id demo_temporary) demo_world)
     \<and> fromUuid (snd (gmRecall demo_world ''Actor.a2.Item.t1'' (JStr ''Actor.a1.Item.c1'')))
        ''Actor.a2.Item.t1'' = None"
    by blast
  from r3 i have r3a: "gmRecall demo_world ''Actor.a2.Item.t1'' (JStr ''Actor.a1.Item.c1'') =
        (True, deleteEmbeddedItem ''a2'' ''t1'' demo_world)"
    by simp
  from r3 have r3b: "fromUuid (snd (gmRecall demo_world ''Actor.a2.Item.t1''
        (JStr ''Actor.a1.Item.c1''))) ''Actor.a2.Item.t1'' = None"
    by blast
  from a b c d r1 r2 r3a r3b show ?thesis by blast
qed

section \<open>Fabricate\<close>

text \<open>
  C2. When the owner's pool for the category is 0, or is no finite number, fabricate
  returns false and leaves the world as it was: no item is created on the target and the
  pool keeps its value.
\<close>

theorem fabricate_empty_pool:
  assumes "fromUuid w ownerActorUuid = Some (DActor ownerActor)"
    and "getSlots ownerActor slotLevel = JNum 0 \<or> \<not> isFinite (getSlots ownerActor slotLevel)"
  shows "gmFabricate w ownerActorUuid targetActorUuid blueprintUuid codexUuid slotLevel = (False, w)"
  using assms unfolding gmFabricate_def
  by (auto split: option.splits doc.splits)

theorem fabricate_empty_pool_witness:
  "fromUuid demo_world ''Actor.a1'' = Some (DActor demo_owner)
   \<and> getSlots demo_owner 3 = JNum 0
   \<and> \<not> isFinite (getSlots demo_owner 5)
   \<and> gmFabricate demo_world ''Actor.a1'' ''Actor.a2'' ''Actor.a1.Item.b1''
        (JStr ''Actor.a1.Item.c1'') 3 = (False, demo_world)
   \<and> gmFabricate demo_world ''Actor.a1'' ''Actor.a2'' ''Actor.a1.Item.b1''
        (JStr ''Actor.a1.Item.c1'') 5 = (False, demo_world)"
proof -
  have a: "fromUuid demo_world ''Actor.a1'' = Some (DActor demo_owner)" by code_simp
  have b: "getSlots demo_owner 3 = JNum 0" by code_simp
  have c: "\<not> isFinite (getSlots demo_owner 5)" by code_simp
  from a b c fabricate_empty_pool[OF a, of 3] fabricate_empty_pool[OF a, of 5]
  show ?thesis by simp
qed

section \<open>Mirror\<close>

text \<open>
  C8. When no folder matches the category, also when the root folder itself is absent,
  mirror changes no actor, item or folder and posts no chat message; it writes one
  warning to the console and returns.
\<close>

lemma no_root_no_folder:
  assumes "find isRootCandidate (game_folders w) = None"
  shows "getSpellLevelFolder w level = None"
proof -
  have "isRootCandidate = (\<lambda>f. folder_name f = CODEX_NAME \<and> folder_type f = ''Item'' \<and> noParent f)"
    by (auto simp: isRootCandidate_def)
  with assms show ?thesis by (simp add: getSpellLevelFolder_def)
qed

theorem mirror_missing_folder:
  assumes "getSpellLevelFolder w level = None \<or> find isRootCandidate (game_folders w) = None"
  shows "gmMirror w itemData actorItemUuid level =
           w\<lparr>console := console w @ [MODULE_ID @ '' | _gmMirror: folder not found for level ''
                                      @ ToString (level_val level)]\<rparr>"
proof -
  from assms have "getSpellLevelFolder w level = None"
    using no_root_no_folder by blast
  then show ?thesis by (simp add: gmMirror_def log_line_def)
qed

theorem mirror_missing_folder_witness:
  "getSpellLevelFolder demo_world (Some 3) = None
   \<and> gmMirror demo_world demo_blueprint ''Actor.a1.Item.b1'' (Some 3) =
       demo_world\<lparr>console := console demo_world @
         [MODULE_ID @ '' | _gmMirror: folder not found for level '' @ ToString (level_val (Some 3))]\<rparr>
   \<and> find isRootCandidate (game_folders (demo_world\<lparr>game_folders := []\<rparr>)) = None
   \<and> gmMirror (demo_world\<lparr>game_folders := []\<rparr>) demo_blueprint ''Actor.a1.Item.b1'' None =
       demo_world\<lparr>game_folders := [], console := console demo_world @
         [MODULE_ID @ '' | _gmMirror: folder not found for level '' @ ToString (level_val None)]\<rparr>"
proof -
  have a: "getSpellLevelFolder demo_world (Some 3) = None" by code_simp
  have b: "find isRootCandidate (game_folders (demo_world\<lparr>game_folders := []\<rparr>)) = None"
    by simp
  from a have a': "getSpellLevelFolder demo_world (Some 3) = None
      \<or> find isRootCandidate (game_folders demo_world) = None" by blast
  from b have b': "getSpellLevelFolder (demo_world\<lparr>game_folders := []\<rparr>) None = None
      \<or> find isRootCandidate (game_folders (demo_world\<lparr>game_folders := []\<rparr>)) = None" by blast
  from a b mirror_missing_folder[OF a', of demo_blueprint "''Actor.a1.Item.b1''"]
    mirror_missing_folder[OF b', of demo_blueprint "''Actor.a1.Item.b1''"]
  show ?thesis by simp
qed

lemma update_first_twice:
  "(\<And>x. P x \<Longrightarrow> P (f x)) \<Longrightarrow>
     update_first P g (update_first P f xs) = update_first P (\<lambda>x. g (f x)) xs"
  by (induction xs) auto

lemma update_first_agree:
  "find P xs = Some m \<Longrightarrow> f m = g m \<Longrightarrow> update_first P f xs = update_first P g xs"
  by (induction xs) (auto split: if_splits)

lemma isMirrorOf_update:
  "isMirrorOf u (m\<lparr>item_folder := a\<rparr>) = isMirrorOf u m"
  "isMirrorOf u (m\<lparr>item_name := b\<rparr>) = isMirrorOf u m"
  "isMirrorOf u (m\<lparr>item_img := c\<rparr>) = isMirrorOf u m"
  by (simp_all add: isMirrorOf_def getFlag_def)

lemma mirror_update_items:
  assumes "getSpellLevelFolder w level = Some folder"
    and "find (isMirrorOf actorItemUuid) (game_items w) = Some mirrorItem"
  shows "gmMirror w itemData actorItemUuid level =
           w\<lparr>game_items := update_first (isMirrorOf actorItemUuid)
                (\<lambda>m. m\<lparr>item_folder := Some (folder_id folder),
                         item_name := item_name itemData, item_img := item_img itemData\<rparr>)
                (game_items w)\<rparr>"
proof (cases "item_folder mirrorItem = Some (folder_id folder)")
  case True
  have "update_first (isMirrorOf actorItemUuid)
          (\<lambda>m. m\<lparr>item_name := item_name itemData, item_img := item_img itemData\<rparr>) (game_items w)
      = update_first (isMirrorOf actorItemUuid)
          (\<lambda>m. m\<lparr>item_folder := Some (folder_id folder),
                   item_name := item_name itemData, item_img := item_img itemData\<rparr>) (game_items w)"
    using assms(2) True by (intro update_first_agree[where m = mirrorItem]) auto
  with assms True show ?thesis by (simp add: gmMirror_def)
next
  case False
  with assms show ?thesis
    by (simp add: gmMirror_def update_first_twice isMirrorOf_update)
qed

text \<open>
  C10. When a mirror of the source exists and the category folder exists, mirror rewrites
  that one world item and nothing else: its folder becomes the category folder, its name
  and image become the payload's, and its flags, with the stored \<open>spellLevel\<close>, its id, type
  and container fields stay as they were.
\<close>

theorem mirror_update_frame:
  assumes "getSpellLevelFolder w level = Some folder"
    and "find (isMirrorOf actorItemUuid) (game_items w) = Some mirrorItem"
  shows "gmMirror w itemData actorItemUuid level =
           w\<lparr>game_items := update_first (isMirrorOf actorItemUuid)
                (\<lambda>m. m\<lparr>item_folder := Some (folder_id folder),
                         item_name := item_name itemData, item_img := item_img itemData\<rparr>)
                (game_items w)\<rparr>
       \<and> find (isMirrorOf actorItemUuid) (game_items (gmMirror w itemData actorItemUuid level)) =
           Some (mirrorItem\<lparr>item_folder := Some (folder_id folder),
                   item_name := item_name itemData, item_img := item_img itemData\<rparr>)
       \<and> length (game_items (gmMirror w itemData actorItemUuid level)) = length (game_items w)"
proof -
  note eq = mirror_update_items[OF assms, of itemData]
  have "find (isMirrorOf actorItemUuid) (update_first (isMirrorOf actorItemUuid)
                (\<lambda>m. m\<lparr>item_folder := Some (folder_id folder),
                         item_name := item_name itemData, item_img := item_img itemData\<rparr>)
                (game_items w))
        = Some (mirrorItem\<lparr>item_folder := Some (folder_id folder),
                   item_name := item_name itemData, item_img := item_img itemData\<rparr>)"
    using assms(2) by (simp add: find_update_first isMirrorOf_update)
  moreover have "length (update_first P f xs) = length xs" for P f and xs :: "item list"
    by (induction xs) auto
  ultimately show ?thesis using eq by simp
qed

theorem mirror_update_frame_witness:
  "getSpellLevelFolder demo_world (Some 2) = Some (demo_sub ''f2'' ''2nd'')
   \<and> find (isMirrorOf ''Actor.a1.Item.b1'') (game_items demo_world) = Some demo_mirror
   \<and> gmMirror demo_world demo_blueprint ''Actor.a1.Item.b1'' (Some 2) =
        demo_world\<lparr>game_items := [demo_template, demo_mirror\<lparr>item_folder := Some ''f2''\<rparr>]\<rparr>
   \<and> getFlag (demo_mirror\<lparr>item_folder := Some ''f2''\<rparr>) ''spellLevel'' = JNum 1"
proof -
  have a: "getSpellLevelFolder demo_world (Some 2) = Some (demo_sub ''f2'' ''2nd'')" by code_simp
  have b: "find (isMirrorOf ''Actor.a1.Item.b1'') (game_items demo_world) = Some demo_mirror"
    by code_simp
  have c: "update_first (isMirrorOf ''Actor.a1.Item.b1'')
             (\<lambda>m. m\<lparr>item_folder := Some (folder_id (demo_sub ''f2'' ''2nd'')),
                      item_name := item_name demo_blueprint, item_img := item_img demo_blueprint\<rparr>)
             (game_items demo_world) = [demo_template, demo_mirror\<lparr>item_folder := Some ''f2''\<rparr>]"
    by code_simp
  have d: "getFlag (demo_mirror\<lparr>item_folder := Some ''f2''\<rparr>) ''spellLevel'' = JNum 1" by code_simp
  from mirror_update_frame[OF a b, of demo_blueprint] c
  have "gmMirror demo_world demo_blueprint ''Actor.a1.Item.b1'' (Some 2) =
        demo_world\<lparr>game_items := [demo_template, demo_mirror\<lparr>item_folder := Some ''f2''\<rparr>]\<rparr>"
    by simp
  with a b d show ?thesis by blast
qed

section \<open>Category lookup\<close>

lemma parseInt_nullish: "parseInt JNull = None" "parseInt JUndefined = None"
  by code_simp+

text \<open>
  C9. When neither assignment map gives the blueprint a category from 1 to 9, the lookup
  answers from the blueprint's own \<open>spellLevel\<close> flag: its parsed value if that is from 1
  to 9, and nothing otherwise.
\<close>

theorem getSlotLevel_falls_back_to_flag:
  assumes "\<not> inRange (parseInt (get_prop (coalesce (getFlag c ''slotLevelsByUuid'') (JObj []))
                                    (item_uuid p b)))"
    and "\<not> inRange (parseInt (get_prop (coalesce (getFlag c ''slotLevelsByName'') (JObj []))
                                    (item_name b)))"
  shows "getSlotLevel (Some c) (Some (p, b)) =
           (if inRange (parseInt (getFlag b ''spellLevel''))
            then parseInt (getFlag b ''spellLevel'') else None)"
  using assms
  by (auto simp: getSlotLevel_def Let_def parseInt_nullish inRange_def)

theorem getSlotLevel_falls_back_to_flag_witness:
  "\<not> inRange (parseInt (get_prop (coalesce (getFlag demo_codex ''slotLevelsByUuid'') (JObj []))
                                    (item_uuid (Some ''a1'') demo_unlisted)))
   \<and> \<not> inRange (parseInt (get_prop (coalesce (getFlag demo_codex ''slotLevelsByName'') (JObj []))
                                    (item_name demo_unlisted)))
   \<and> getSlotLevel (Some demo_codex) (Some (Some ''a1'', demo_unlisted)) = Some 4
   \<and> \<not> inRange (parseInt (get_prop (coalesce (getFlag demo_codex ''slotLevelsByUuid'') (JObj []))
                                    (item_uuid (Some ''a1'') demo_nameless)))
   \<and> \<not> inRange (parseInt (get_prop (coalesce (getFlag demo_codex ''slotLevelsByName'') (JObj []))
                                    (item_name demo_nameless)))
   \<and> getSlotLevel (Some demo_codex) (Some (Some ''a1'', demo_nameless)) = None"
proof -
  have a: "\<not> inRange (parseInt (get_prop (coalesce (getFlag demo_codex ''slotLevelsByUuid'') (JObj []))
                                    (item_uuid (Some ''a1'') demo_unlisted)))" by code_simp
  have b: "\<not> inRange (parseInt (get_prop (coalesce (getFlag demo_codex ''slotLevelsByName'') (JObj []))
                                    (item_name demo_unlisted)))" by code_simp
  have c: "(if inRange (parseInt (getFlag demo_unlisted ''spellLevel''))
            then parseInt (getFlag demo_unlisted ''spellLevel'') else None) = Some 4" by code_simp
  have a': "\<not> inRange (parseInt (get_prop (coalesce (getFlag demo_codex ''slotLevelsByUuid'') (JObj []))
                                    (item_uuid (Some ''a1'') demo_nameless)))" by code_simp
  have b': "\<not> inRange (parseInt (get_prop (coalesce (getFlag demo_codex ''slotLevelsByName'') (JObj []))
                                    (item_name demo_nameless)))" by code_simp
  have c': "(if inRange (parseInt (getFlag demo_nameless ''spellLevel''))
            then parseInt (getFlag demo_nameless ''spellLevel'') else None) = None" by code_simp
  from getSlotLevel_falls_back_to_flag[OF a b] c
  have r: "getSlotLevel (Some demo_codex) (Some (Some ''a1'', demo_unlisted)) = Some 4" by simp
  from getSlotLevel_falls_back_to_flag[OF a' b'] c'
  have r': "getSlotLevel (Some demo_codex) (Some (Some ''a1'', demo_nameless)) = None" by simp
  from a b r a' b' r' show ?thesis by blast
qed

section \<open>Category input\<close>

lemma below_ten: "d < 10 \<Longrightarrow> d \<in> {0, 1, 2, 3, 4, 5, 6, 7, 8, 9 :: nat}"
  by auto

lemma digit_char_facts:
  assumes "d < 10"
  shows "is_digit (digit_char d)" and "\<not> is_ws (digit_char d)"
    and "digit_char d \<noteq> CHR ''+''" and "digit_char d \<noteq> CHR ''-''"
    and "digit_val (digit_char d) = int d"
  using below_ten[OF assms]
  by (auto simp: digit_char_def is_digit_def is_ws_def digit_val_def)

lemma digits_val_snoc: "digits_val (z @ [c]) = 10 * digits_val z + digit_val c"
  by (simp add: digits_val_def)

lemma digits_val_nonneg: "0 \<le> digits_val z"
proof -
  have "0 \<le> a \<Longrightarrow> 0 \<le> foldl (\<lambda>a c. 10 * a + digit_val c) a z" for a
    by (induction z arbitrary: a) (simp_all add: digit_val_def)
  then show ?thesis by (simp add: digits_val_def)
qed

lemma show_digits_digits: "show_digits n \<noteq> [] \<and> list_all is_digit (show_digits n)"
proof (induction n rule: show_digits.induct)
  case (1 n)
  show ?case
  proof (cases "n < 10")
    case True
    then have "nat n < 10" by simp
    with True show ?thesis by (subst (1 2) show_digits.simps) (simp add: digit_char_facts)
  next
    case False
    have "nat (n mod 10) < 10" by simp
    with False 1 show ?thesis by (subst (1 2) show_digits.simps) (simp add: digit_char_facts)
  qed
qed

lemma show_digits_value: "0 \<le> n \<Longrightarrow> digits_val (show_digits n) = n"
proof (induction n rule: show_digits.induct)
  case (1 n)
  show ?case
  proof (cases "n < 10")
    case True
    then have "nat n < 10" by simp
    with True "1.prems" show ?thesis
      by (subst show_digits.simps) (simp add: digits_val_def digit_char_facts)
  next
    case False
    with 1 have "digits_val (show_digits (n div 10)) = n div 10" by simp
    moreover have "nat (n mod 10) < 10" by simp
    ultimately show ?thesis using False
      by (subst show_digits.simps) (simp add: digits_val_snoc digit_char_facts)
  qed
qed

lemma parseInt10_digits:
  assumes "z \<noteq> []" and "list_all is_digit z"
  shows "parseInt10 z = Some (digits_val z)"
    and "parseInt10 (CHR ''-'' # z) = Some (- digits_val z)"
proof -
  from assms obtain c r where z: "z = c # r" and c: "is_digit c" by (cases z) auto
  from c have nw: "\<not> is_ws c" and ns: "c \<noteq> CHR ''+''" "c \<noteq> CHR ''-''"
    by (auto simp: is_digit_def is_ws_def)
  from assms(2) have tw: "takeWhile is_digit z = z"
    by (simp add: takeWhile_eq_all_conv list_all_iff)
  from nw ns assms(1) show "parseInt10 z = Some (digits_val z)"
    using tw by (simp add: parseInt10_def Let_def z del: takeWhile_eq_all_conv)
  have "\<not> is_ws CHR ''-''" by (simp add: is_ws_def)
  with assms(1) show "parseInt10 (CHR ''-'' # z) = Some (- digits_val z)"
    using tw by (simp add: parseInt10_def Let_def del: takeWhile_eq_all_conv)
qed

lemma parseInt10_minus: "\<not> inRange (parseInt10 (CHR ''-'' # t))"
proof -
  have "\<not> is_ws CHR ''-''" by (simp add: is_ws_def)
  then have "parseInt10 (CHR ''-'' # t) =
          (if takeWhile is_digit t = [] then None
           else Some (- digits_val (takeWhile is_digit t)))"
    by (simp add: parseInt10_def Let_def)
  then show ?thesis using digits_val_nonneg[of "takeWhile is_digit t"]
    by (simp add: inRange_def)
qed

lemma parseInt_JNum: "\<bar>n\<bar> \<le> 2 ^ 53 \<Longrightarrow> parseInt (JNum n) = Some n"
  using show_digits_digits parseInt10_digits show_digits_value
  by (simp add: parseInt_def show_number_def show_int_def)

lemma parseInt_JNum_negative: "n < 0 \<Longrightarrow> \<not> inRange (parseInt (JNum n))"
  using parseInt10_minus by (simp add: parseInt_def show_number_def show_int_def)

lemma normalizedLevel_JNum:
  "\<bar>n\<bar> \<le> 2 ^ 53 \<Longrightarrow> normalizedLevel (JNum n) =
     (if n = 0 then Some None else if 1 \<le> n \<and> n \<le> 9 then Some (Some n) else None)"
  by (auto simp: normalizedLevel_def parseInt_JNum)

lemma normalizedLevel_other:
  assumes "level \<notin> {JNull, JStr [], JStr ''0'', JNum 0}"
  shows "normalizedLevel level =
           (if inRange (parseInt level) then Some (parseInt level) else None)"
  using assms by (auto simp: normalizedLevel_def inRange_def split: option.splits)

lemma normalizedLevel_negative: "n < 0 \<Longrightarrow> normalizedLevel (JNum n) = None"
  using normalizedLevel_other[of "JNum n"] parseInt_JNum_negative[of n] by simp

lemma normalizedLevel_JFrac_negative: "m < 0 \<Longrightarrow> normalizedLevel (JFrac m e) = None"
  using normalizedLevel_other[of "JFrac m e"] parseInt10_minus[of "show_pos \<bar>m\<bar> (2 ^ e)"]
  by (simp add: parseInt_def show_frac_def)

lemma normalizedLevel_digit_string:
  assumes "1 \<le> d" and "d \<le> 9" and "t = [] \<or> \<not> is_digit (hd t)"
  shows "normalizedLevel (JStr (digit_char d # t)) = Some (Some (int d))"
proof -
  from assms(2) have d: "d < 10" by simp
  from assms(3) have "takeWhile is_digit t = []" by (cases t) simp_all
  with digit_char_facts[OF d]
  have p: "parseInt (JStr (digit_char d # t)) = Some (int d)"
    by (simp add: parseInt_def parseInt10_def Let_def digits_val_def)
  have "digit_char d \<noteq> CHR ''0''"
    using below_ten[OF d] assms(1) by (auto simp: digit_char_def)
  then have "JStr (digit_char d # t) \<notin> {JNull, JStr [], JStr ''0'', JNum 0}" by simp
  from normalizedLevel_other[OF this] p assms(1,2) show ?thesis
    by (simp add: inRange_def)
qed

lemma rejected_no_change:
  assumes "normalizedLevel level = None"
  shows "setSlotLevelForBlueprint w codexRef blueprintRef level = w"
  using assms unfolding setSlotLevelForBlueprint_def
  by (simp split: option.splits doc.splits)


text \<open>
  C6, as the code has it. The four values \<open>null\<close>, \<open>""\<close>, \<open>"0"\<close> and \<open>0\<close> become
  uncategorized, and the integers 1 to 9 are accepted as they are. Every other input, a
  number that is no integer and a string included, goes through
  \<open>Number.parseInt(level, 10)\<close>, which reads the leading integer of what the input prints
  as, and is accepted as that integer exactly when it is from 1 to 9. So the negative
  numbers and the integers from 10 to \<open>2^53\<close> are rejected, and a string that starts with
  one digit from 1 to 9 and goes on with no digit is accepted as that digit. A rejected
  input leaves the world as it was.
\<close>

theorem assign_category_input:
  "normalizedLevel JNull = Some None \<and> normalizedLevel (JStr []) = Some None
   \<and> normalizedLevel (JStr ''0'') = Some None \<and> normalizedLevel (JNum 0) = Some None
   \<and> (\<forall>n. 1 \<le> n \<and> n \<le> 9 \<longrightarrow> normalizedLevel (JNum n) = Some (Some n))
   \<and> (\<forall>n. n < 0 \<or> (9 < n \<and> n \<le> 2 ^ 53) \<longrightarrow> normalizedLevel (JNum n) = None)
   \<and> (\<forall>m e. m < 0 \<longrightarrow> normalizedLevel (JFrac m e) = None)
   \<and> (\<forall>d t. 1 \<le> d \<and> d \<le> 9 \<and> (t = [] \<or> \<not> is_digit (hd t)) \<longrightarrow>
          normalizedLevel (JStr (digit_char d # t)) = Some (Some (int d)))
   \<and> (level \<notin> {JNull, JStr [], JStr ''0'', JNum 0} \<longrightarrow>
        normalizedLevel level = (if inRange (parseInt level) then Some (parseInt level) else None))
   \<and> (normalizedLevel level = None \<longrightarrow>
        setSlotLevelForBlueprint w codexRef blueprintRef level = w)"
proof -
  have a: "normalizedLevel JNull = Some None" "normalizedLevel (JStr []) = Some None"
    "normalizedLevel (JStr ''0'') = Some None" "normalizedLevel (JNum 0) = Some None"
    by (simp_all add: normalizedLevel_def)
  have b: "\<forall>n. 1 \<le> n \<and> n \<le> 9 \<longrightarrow> normalizedLevel (JNum n) = Some (Some n)"
  proof (intro allI impI)
    fix n :: int assume n: "1 \<le> n \<and> n \<le> 9"
    then have "\<bar>n\<bar> \<le> 2 ^ 53" by simp
    from normalizedLevel_JNum[OF this] n show "normalizedLevel (JNum n) = Some (Some n)" by simp
  qed
  have c: "\<forall>n. n < 0 \<or> (9 < n \<and> n \<le> 2 ^ 53) \<longrightarrow> normalizedLevel (JNum n) = None"
  proof (intro allI impI)
    fix n :: int assume n: "n < 0 \<or> (9 < n \<and> n \<le> 2 ^ 53)"
    show "normalizedLevel (JNum n) = None"
    proof (cases "n < 0")
      case True
      then show ?thesis by (rule normalizedLevel_negative)
    next
      case False
      with n have "9 < n" "\<bar>n\<bar> \<le> 2 ^ 53" by simp_all
      from normalizedLevel_JNum[OF this(2)] this(1) show ?thesis by simp
    qed
  qed
  have c': "\<forall>m e. m < 0 \<longrightarrow> normalizedLevel (JFrac m e) = None"
    using normalizedLevel_JFrac_negative by simp
  have d: "\<forall>d t. 1 \<le> d \<and> d \<le> 9 \<and> (t = [] \<or> \<not> is_digit (hd t)) \<longrightarrow>
          normalizedLevel (JStr (digit_char d # t)) = Some (Some (int d))"
    using normalizedLevel_digit_string by simp
  have e: "level \<notin> {JNull, JStr [], JStr ''0'', JNum 0} \<longrightarrow>
        normalizedLevel level = (if inRange (parseInt level) then Some (parseInt level) else None)"
    using normalizedLevel_other[of level] by simp
  have f: "normalizedLevel level = None \<longrightarrow>
        setSlotLevelForBlueprint w codexRef blueprintRef level = w"
    using rejected_no_change[of level w codexRef blueprintRef] by simp
  from a b c c' d e f show ?thesis by (intro conjI)
qed

theorem assign_category_input_witness:
  "normalizedLevel (JNum 5) = Some (Some 5)
   \<and> normalizedLevel (JNum 12) = None
   \<and> normalizedLevel (JNum (- 3)) = None
   \<and> normalizedLevel (JFrac (- 11) 1) = None
   \<and> normalizedLevel (JStr (digit_char 7 # ''th'')) = Some (Some 7)
   \<and> JStr ''7'' \<notin> {JNull, JStr [], JStr ''0'', JNum 0}
   \<and> normalizedLevel (JStr ''7'') = Some (Some 7)
   \<and> normalizedLevel (JStr ''seven'') = None
   \<and> setSlotLevelForBlueprint demo_world ''Actor.a1.Item.c1'' ''Actor.a1.Item.b2''
        (JStr ''seven'') = demo_world"
proof -
  have a: "JStr ''7'' \<notin> {JNull, JStr [], JStr ''0'', JNum 0}" by simp
  have b: "(if inRange (parseInt (JStr ''7'')) then Some (parseInt (JStr ''7'')) else None)
            = Some (Some 7)" by code_simp
  have c: "normalizedLevel (JStr ''seven'') = None" by code_simp
  have h: "\<not> is_digit (hd ''th'')" by (simp add: is_digit_def)
  note t1 = assign_category_input[of "JStr ''7''" demo_world "''Actor.a1.Item.c1''"
              "''Actor.a1.Item.b2''"]
  note t2 = assign_category_input[of "JStr ''seven''" demo_world "''Actor.a1.Item.c1''"
              "''Actor.a1.Item.b2''"]
  from t1 have r1: "normalizedLevel (JNum 5) = Some (Some 5)" by simp
  from t1 have r2: "normalizedLevel (JNum 12) = None" by simp
  from t1 have r2': "normalizedLevel (JNum (- 3)) = None" by simp
  from t1 have r2f: "normalizedLevel (JFrac (- 11) 1) = None" by simp
  from t1 have "1 \<le> (7::nat) \<and> (7::nat) \<le> 9 \<and> (''th'' = [] \<or> \<not> is_digit (hd ''th'')) \<longrightarrow>
          normalizedLevel (JStr (digit_char 7 # ''th'')) = Some (Some (int 7))"
    by blast
  with h have r2'': "normalizedLevel (JStr (digit_char 7 # ''th'')) = Some (Some 7)" by simp
  from t1 a b have r3: "normalizedLevel (JStr ''7'') = Some (Some 7)" by simp
  from t2 c have r4: "setSlotLevelForBlueprint demo_world ''Actor.a1.Item.c1''
        ''Actor.a1.Item.b2'' (JStr ''seven'') = demo_world" by blast
  from r1 r2 r2' r2f r2'' a r3 c r4 show ?thesis by (intro conjI)
qed

text \<open>
  The claim as written fails on a string that is no number: \<open>"3rd"\<close> is neither one of
  the four uncategorized values nor an integer, yet it is accepted as category 3 and the
  assignment is carried out. It fails on numbers as well: \<open>5.5\<close>, a number that is no
  integer, is accepted as category 5, and so is \<open>5e-7\<close>; \<open>1e21\<close>, which prints as
  \<open>1e+21\<close>, is accepted as category 1.
\<close>

theorem assign_category_input_counterexample:
  "normalizedLevel (JStr ''3rd'') = Some (Some 3)
   \<and> get_prop (getFlag (liveItem (setSlotLevelForBlueprint demo_world ''Actor.a1.Item.c1''
                                    ''Actor.a1.Item.b2'' (JStr ''3rd''))
                          (Some ''a1'') demo_codex) ''slotLevelsByUuid'')
        ''Actor.a1.Item.b2'' = JNum 3
   \<and> setSlotLevelForBlueprint demo_world ''Actor.a1.Item.c1'' ''Actor.a1.Item.b2''
        (JStr ''3rd'') \<noteq> demo_world
   \<and> ToString (JFrac 11 1) = ''5.5''
   \<and> normalizedLevel (JFrac 11 1) = Some (Some 5)
   \<and> toNumber 5 10000000 = JFrac 4722366482869645 73
   \<and> ToString (JFrac 4722366482869645 73) = ''5e-7''
   \<and> normalizedLevel (JFrac 4722366482869645 73) = Some (Some 5)
   \<and> ToString (JNum 1000000000000000000000) = ''1e+21''
   \<and> normalizedLevel (JNum 1000000000000000000000) = Some (Some 1)"
proof -
  have a: "normalizedLevel (JStr ''3rd'') = Some (Some 3)" by code_simp
  have b: "get_prop (getFlag (liveItem (setSlotLevelForBlueprint demo_world ''Actor.a1.Item.c1''
                                    ''Actor.a1.Item.b2'' (JStr ''3rd''))
                          (Some ''a1'') demo_codex) ''slotLevelsByUuid'')
        ''Actor.a1.Item.b2'' = JNum 3" by code_simp
  have c: "get_prop (getFlag (liveItem demo_world (Some ''a1'') demo_codex) ''slotLevelsByUuid'')
        ''Actor.a1.Item.b2'' = JUndefined" by code_simp
  from b c have d: "setSlotLevelForBlueprint demo_world ''Actor.a1.Item.c1'' ''Actor.a1.Item.b2''
        (JStr ''3rd'') \<noteq> demo_world" by auto
  have e: "ToString (JNum 1000000000000000000000) = ''1e+21''" by code_simp
  have f: "normalizedLevel (JNum 1000000000000000000000) = Some (Some 1)" by code_simp
  have g: "ToString (JFrac 11 1) = ''5.5''" by code_simp
  have h: "normalizedLevel (JFrac 11 1) = Some (Some 5)" by code_simp
  have i: "toNumber 5 10000000 = JFrac 4722366482869645 73" by code_simp
  have j: "ToString (JFrac 4722366482869645 73) = ''5e-7''" by code_simp
  have k: "normalizedLevel (JFrac 4722366482869645 73) = Some (Some 5)" by code_simp
  from a b d e f g h i j k show ?thesis by (intro conjI)
qed

section \<open>Ensure container\<close>

lemma find_append:
  "find P (xs @ ys) = (case find P xs of None \<Rightarrow> find P ys | Some x \<Rightarrow> Some x)"
  by (induction xs) auto












section \<open>One mirror per source\<close>





lemma mirror_create_items:
  assumes "getSpellLevelFolder w level = Some folder"
    and "find (isMirrorOf actorItemUuid) (game_items w) = None"
  shows "gmMirror w itemData actorItemUuid level =
           w\<lparr>game_items := game_items w @
              [itemData\<lparr>item_folder := Some (folder_id folder), item_container := None,
                 item_containerId := None,
                 item_flags := AList.update ''spellLevel'' (level_val level)
                    (AList.update ''mirrorOf'' (JStr actorItemUuid) (item_flags itemData)),
                 item_id := fresh_id (used_ids w)\<rparr>]\<rparr>"
  using assms by (simp add: gmMirror_def createItem_def Let_def)









section \<open>Resolving references after a write\<close>

lemma splitOn_nonempty: "splitOn c u \<noteq> []"
  by (induction u) (auto split: list.splits)

lemma splitOn_join: "splitOn c u = x # xs \<Longrightarrow> u = x @ concat (map (\<lambda>y. c # y) xs)"
proof (induction u arbitrary: x xs)
  case Nil
  then show ?case by simp
next
  case (Cons h t)
  obtain y ys where t: "splitOn c t = y # ys"
    using splitOn_nonempty[of c t] by (cases "splitOn c t") auto
  from Cons.IH[OF t] have t': "t = y @ concat (map (\<lambda>y. c # y) ys)" .
  show ?case
  proof (cases "h = c")
    case True
    with Cons.prems t have "x = []" "xs = y # ys" by simp_all
    with True t' show ?thesis by simp
  next
    case False
    with Cons.prems t have "x = h # y" "xs = ys" by simp_all
    with t' show ?thesis by simp
  qed
qed

lemma fromUuid_item_uuid:
  assumes "fromUuid w u = Some (DItem p it)"
  shows "item_uuid p it = u"
  using fromUuid_item_cases[OF assms]
  by (auto simp: item_uuid_def dest!: splitOn_join find_SomeD)

lemma find_update_first_other:
  "(\<And>x. k (f x) = k x) \<Longrightarrow> i' \<noteq> i \<Longrightarrow>
     find (\<lambda>x. k x = i') (update_first (\<lambda>x. k x = i) f xs) = find (\<lambda>x. k x = i') xs"
  by (induction xs) auto

lemma find_update_first_any:
  "(\<And>x. k (g x) = k x) \<Longrightarrow> find (\<lambda>x. k x = i) xs = Some it \<Longrightarrow>
     find (\<lambda>x. k x = i) (update_first P g xs) = Some it
     \<or> find (\<lambda>x. k x = i) (update_first P g xs) = Some (g it)"
  by (induction xs) (auto split: if_splits)

lemma fromUuid_same_store:
  "game_actors w' = game_actors w \<Longrightarrow> game_items w' = game_items w \<Longrightarrow>
   game_folders w' = game_folders w \<Longrightarrow> fromUuid w' u = fromUuid w u"
  by (simp add: fromUuid_def cong: list.case_cong option.case_cong if_cong)


lemma fromUuid_update_item:
  assumes f: "\<And>x. item_id (f x) = item_id x"
    and r: "fromUuid w u' = Some (DItem p' it')"
  shows "fromUuid (update_item p i f w) u' =
           Some (DItem p' (if p' = p \<and> item_id it' = i then f it' else it'))"
proof -
  from fromUuid_item_cases[OF r] show ?thesis
  proof (elim disjE conjE exE)
    fix i' assume h: "p' = None" "splitOn CHR ''.'' u' = [''Item'', i']"
      "find (\<lambda>x. item_id x = i') (game_items w) = Some it'"
    then have id: "item_id it' = i'" by (auto dest: find_SomeD)
    show ?thesis
    proof (cases p)
      case None
      show ?thesis
      proof (cases "i' = i")
        case True
        with h None id f show ?thesis
          by (simp add: fromUuid_def update_item_def find_update_first)
      next
        case False
        with h None id f show ?thesis
          by (simp add: fromUuid_def update_item_def find_update_first_other[where k = item_id])
      qed
    next
      case (Some a)
      with h show ?thesis by (simp add: fromUuid_def update_item_def update_actor_def)
    qed
  next
    fix a' i' act assume h: "p' = Some a'"
      "splitOn CHR ''.'' u' = [''Actor'', a', ''Item'', i']"
      "find (\<lambda>x. actor_id x = a') (game_actors w) = Some act"
      "find (\<lambda>x. item_id x = i') (actor_items act) = Some it'"
    then have id: "item_id it' = i'" by (auto dest: find_SomeD)
    show ?thesis
    proof (cases p)
      case None
      with h show ?thesis by (simp add: fromUuid_def update_item_def)
    next
      case (Some a)
      show ?thesis
      proof (cases "a' = a")
        case False
        with h Some show ?thesis
          by (simp add: fromUuid_def update_item_def update_actor_def
                find_update_first_other[where k = actor_id])
      next
        case True
        show ?thesis
        proof (cases "i' = i")
          case eq: True
          with True h Some id f show ?thesis
            by (simp add: fromUuid_def update_item_def update_actor_def find_update_first)
        next
          case ne: False
          with True h Some id f show ?thesis
            by (simp add: fromUuid_def update_item_def update_actor_def find_update_first
                  find_update_first_other[where k = item_id])
        qed
      qed
    qed
  qed
qed

lemma item_id_setFlag: "item_id (setFlag x k v) = item_id x"
  by (simp add: setFlag_def)

lemma getFlag_setFlag: "getFlag (setFlag x k v) k' = (if k' = k then v else getFlag x k')"
  by (simp add: getFlag_def setFlag_def update_conv')

lemma gmSetFlag_resolve:
  assumes "fromUuid w u' = Some (DItem p' it')"
  shows "fromUuid (gmSetFlag w u k v) u' =
           Some (DItem p' (if u' = u then setFlag it' k v else it'))"
proof (cases "\<exists>p it. fromUuid w u = Some (DItem p it)")
  case False
  with assms have "u' \<noteq> u" by auto
  moreover from False have "gmSetFlag w u k v = w"
    by (auto simp: gmSetFlag_def split: option.splits doc.splits)
  ultimately show ?thesis using assms by simp
next
  case True
  then obtain p it where r: "fromUuid w u = Some (DItem p it)" by blast
  then have eq: "gmSetFlag w u k v = update_item p (item_id it) (\<lambda>x. setFlag x k v) w"
    by (simp add: gmSetFlag_def)
  have same: "(p' = p \<and> item_id it' = item_id it) = (u' = u)"
  proof
    assume "p' = p \<and> item_id it' = item_id it"
    then have "item_uuid p' it' = item_uuid p it" by (simp add: item_uuid_def cong: option.case_cong)
    then show "u' = u" using fromUuid_item_uuid[OF r] fromUuid_item_uuid[OF assms] by simp
  next
    assume "u' = u"
    with r assms show "p' = p \<and> item_id it' = item_id it" by simp
  qed
  from fromUuid_update_item[where f = "\<lambda>x. setFlag x k v" and p = p and i = "item_id it",
          OF item_id_setFlag assms] same eq
  show ?thesis by simp
qed

lemma gmMirror_resolve:
  assumes "fromUuid w u = Some (DItem p it)"
  shows "\<exists>it'. fromUuid (gmMirror w d s level) u = Some (DItem p it')
              \<and> item_flags it' = item_flags it"
proof (cases "getSpellLevelFolder w level")
  case None
  then have "gmMirror w d s level = log_line (MODULE_ID @ '' | _gmMirror: folder not found for level ''
                   @ ToString (level_val level)) w"
    by (simp add: gmMirror_def)
  moreover have "fromUuid (log_line msg w) u = fromUuid w u" for msg
    by (rule fromUuid_same_store) (simp_all add: log_line_def)
  ultimately have "fromUuid (gmMirror w d s level) u = fromUuid w u" by simp
  with assms show ?thesis by simp
next
  case (Some folder)
  let ?g = "\<lambda>m. m\<lparr>item_folder := Some (folder_id folder),
                  item_name := item_name d, item_img := item_img d\<rparr>"
  have "\<exists>new. gmMirror w d s level = w\<lparr>game_items := game_items w @ [new]\<rparr>
      \<or> gmMirror w d s level = w\<lparr>game_items := update_first (isMirrorOf s) ?g (game_items w)\<rparr>"
  proof (cases "find (isMirrorOf s) (game_items w)")
    case None
    from mirror_create_items[OF Some None] show ?thesis by blast
  next
    case found: (Some mirrorItem)
    from mirror_update_items[OF Some found] show ?thesis by blast
  qed
  then obtain items' where eq: "gmMirror w d s level = w\<lparr>game_items := items'\<rparr>"
    and items': "(\<exists>new. items' = game_items w @ [new])
                 \<or> items' = update_first (isMirrorOf s) ?g (game_items w)"
    by blast
  from fromUuid_item_cases[OF assms] show ?thesis
  proof (elim disjE conjE exE)
    fix i assume h: "p = None" "splitOn CHR ''.'' u = [''Item'', i]"
      "find (\<lambda>x. item_id x = i) (game_items w) = Some it"
    have "find (\<lambda>x. item_id x = i) items' = Some it
          \<or> find (\<lambda>x. item_id x = i) items' = Some (?g it)"
    proof -
      from items' show ?thesis
      proof
        assume "\<exists>new. items' = game_items w @ [new]"
        with h show ?thesis by (auto simp: find_append)
      next
        assume "items' = update_first (isMirrorOf s) ?g (game_items w)"
        with find_update_first_any[where k = item_id and g = ?g, OF _ h(3), of "isMirrorOf s"]
        show ?thesis by simp
      qed
    qed
    with h eq show ?thesis by (auto simp: fromUuid_def)
  next
    fix a i act assume h: "p = Some a" "splitOn CHR ''.'' u = [''Actor'', a, ''Item'', i]"
      "find (\<lambda>x. actor_id x = a) (game_actors w) = Some act"
      "find (\<lambda>x. item_id x = i) (actor_items act) = Some it"
    with eq show ?thesis by (simp add: fromUuid_def)
  qed
qed

lemma gmNotify_resolve: "fromUuid (gmNotify w msg) u = fromUuid w u"
  by (rule fromUuid_same_store) (simp_all add: gmNotify_def)


section \<open>Category maps\<close>

lemma setSlot_steps:
  assumes "fromUuid w codexRef = Some (DItem cp codex)"
    and "fromUuid w blueprintRef = Some (DItem bp blueprint)"
    and "normalizedLevel level = Some nl"
    and "uuidMap = coalesce (getFlag codex ''slotLevelsByUuid'') (JObj [])"
    and "nameMap = coalesce (getFlag codex ''slotLevelsByName'') (JObj [])"
    and "uuidMap' = (case nl of None \<Rightarrow> delete_prop uuidMap blueprintRef
                     | Some n \<Rightarrow> set_prop uuidMap blueprintRef n)"
    and "nameMap' = (if item_name blueprint \<noteq> []
                     then (case nl of None \<Rightarrow> delete_prop nameMap (item_name blueprint)
                           | Some n \<Rightarrow> set_prop nameMap (item_name blueprint) n)
                     else nameMap)"
  shows "\<exists>d msg. setSlotLevelForBlueprint w codexRef blueprintRef level =
           gmNotify
             (gmMirror
               (gmSetFlag
                 (gmSetFlag (gmSetFlag w codexRef ''slotLevelsByUuid'' uuidMap')
                    codexRef ''slotLevelsByName'' nameMap')
                 blueprintRef ''spellLevel'' (level_val nl))
               d blueprintRef nl)
             msg"
proof -
  have c: "item_uuid cp codex = codexRef" by (rule fromUuid_item_uuid[OF assms(1)])
  have b: "item_uuid bp blueprint = blueprintRef" by (rule fromUuid_item_uuid[OF assms(2)])
  show ?thesis
    unfolding setSlotLevelForBlueprint_def Let_def
    using assms c b by (simp cong: option.case_cong) blast
qed

lemma codex_after_assignment:
  assumes "fromUuid w codexRef = Some (DItem cp codex)"
  shows "\<exists>codex'. fromUuid
           (gmNotify
             (gmMirror
               (gmSetFlag
                 (gmSetFlag (gmSetFlag w codexRef ''slotLevelsByUuid'' m1)
                    codexRef ''slotLevelsByName'' m2)
                 blueprintRef ''spellLevel'' v)
               d blueprintRef nl)
             msg) codexRef = Some (DItem cp codex')
         \<and> getFlag codex' ''slotLevelsByUuid'' = m1
         \<and> getFlag codex' ''slotLevelsByName'' = m2"
proof -
  let ?w1 = "gmSetFlag w codexRef ''slotLevelsByUuid'' m1"
  let ?w2 = "gmSetFlag ?w1 codexRef ''slotLevelsByName'' m2"
  let ?w3 = "gmSetFlag ?w2 blueprintRef ''spellLevel'' v"
  let ?c1 = "setFlag codex ''slotLevelsByUuid'' m1"
  let ?c2 = "setFlag ?c1 ''slotLevelsByName'' m2"
  let ?c3 = "if codexRef = blueprintRef then setFlag ?c2 ''spellLevel'' v else ?c2"
  from gmSetFlag_resolve[OF assms, of codexRef "''slotLevelsByUuid''" m1]
  have r1: "fromUuid ?w1 codexRef = Some (DItem cp ?c1)" by simp
  from gmSetFlag_resolve[OF r1, of codexRef "''slotLevelsByName''" m2]
  have r2: "fromUuid ?w2 codexRef = Some (DItem cp ?c2)" by simp
  from gmSetFlag_resolve[OF r2, of blueprintRef "''spellLevel''" v]
  have r3: "fromUuid ?w3 codexRef = Some (DItem cp ?c3)" by simp
  have f3: "getFlag ?c3 ''slotLevelsByUuid'' = m1" "getFlag ?c3 ''slotLevelsByName'' = m2"
    by (simp_all add: getFlag_setFlag)
  from gmMirror_resolve[OF r3, of d blueprintRef nl]
  obtain c4 where r4: "fromUuid (gmMirror ?w3 d blueprintRef nl) codexRef = Some (DItem cp c4)"
    and fl: "item_flags c4 = item_flags ?c3" by blast
  from fl have "getFlag c4 k = getFlag ?c3 k" for k by (simp add: getFlag_def)
  with f3 have "getFlag c4 ''slotLevelsByUuid'' = m1" "getFlag c4 ''slotLevelsByName'' = m2"
    by simp_all
  with r4 show ?thesis by (simp add: gmNotify_resolve)
qed

lemma isMap_coalesce: "isMap v \<Longrightarrow> \<exists>kvs. coalesce v (JObj []) = JObj kvs"
  by (cases v) (simp_all add: coalesce_def)

lemma item_uuid_not_proto: "item_uuid p it \<noteq> ''__proto__''"
  by (cases p) (simp_all add: item_uuid_def)

text \<open>
  C5, as the code has it. For a codex whose two assignment flags hold maps, an accepted
  assignment of category \<open>n\<close> leaves the uuid-keyed map of the codex with \<open>n\<close> under the
  blueprint's uuid and, when the blueprint's name is neither empty nor \<open>__proto__\<close>, the
  name-keyed map with \<open>n\<close> under its name. An accepted un-assignment leaves the uuid-keyed
  map with no entry for the uuid and, when the name is not empty, the name-keyed map with
  no entry for the name. For a blueprint with an empty name the name-keyed map keeps its
  contents.
\<close>

theorem category_maps_agree:
  assumes "fromUuid w codexRef = Some (DItem cp codex)"
    and "fromUuid w blueprintRef = Some (DItem bp blueprint)"
    and "isMap (getFlag codex ''slotLevelsByUuid'')"
    and "isMap (getFlag codex ''slotLevelsByName'')"
    and "normalizedLevel level = Some nl"
  shows "\<exists>codex'. fromUuid (setSlotLevelForBlueprint w codexRef blueprintRef level) codexRef
                     = Some (DItem cp codex')
          \<and> (case nl of
                Some n \<Rightarrow>
                  get_prop (getFlag codex' ''slotLevelsByUuid'') blueprintRef = JNum n
                  \<and> (item_name blueprint \<noteq> [] \<and> item_name blueprint \<noteq> ''__proto__'' \<longrightarrow>
                       get_prop (getFlag codex' ''slotLevelsByName'') (item_name blueprint)
                         = JNum n)
              | None \<Rightarrow>
                  \<not> has_prop (getFlag codex' ''slotLevelsByUuid'') blueprintRef
                  \<and> (item_name blueprint \<noteq> [] \<longrightarrow>
                       \<not> has_prop (getFlag codex' ''slotLevelsByName'') (item_name blueprint)))
          \<and> (item_name blueprint = [] \<longrightarrow>
                getFlag codex' ''slotLevelsByName''
                  = coalesce (getFlag codex ''slotLevelsByName'') (JObj []))"
proof -
  define uuidMap where "uuidMap = coalesce (getFlag codex ''slotLevelsByUuid'') (JObj [])"
  define nameMap where "nameMap = coalesce (getFlag codex ''slotLevelsByName'') (JObj [])"
  define uuidMap' where "uuidMap' = (case nl of None \<Rightarrow> delete_prop uuidMap blueprintRef
                     | Some n \<Rightarrow> set_prop uuidMap blueprintRef n)"
  define nameMap' where "nameMap' = (if item_name blueprint \<noteq> []
                     then (case nl of None \<Rightarrow> delete_prop nameMap (item_name blueprint)
                           | Some n \<Rightarrow> set_prop nameMap (item_name blueprint) n)
                     else nameMap)"
  from setSlot_steps[OF assms(1,2,5) uuidMap_def nameMap_def uuidMap'_def nameMap'_def]
  obtain d msg where steps: "setSlotLevelForBlueprint w codexRef blueprintRef level =
           gmNotify
             (gmMirror
               (gmSetFlag
                 (gmSetFlag (gmSetFlag w codexRef ''slotLevelsByUuid'' uuidMap')
                    codexRef ''slotLevelsByName'' nameMap')
                 blueprintRef ''spellLevel'' (level_val nl))
               d blueprintRef nl)
             msg" by blast
  from codex_after_assignment[OF assms(1), of uuidMap' nameMap' blueprintRef "level_val nl" d nl msg]
  obtain codex' where res: "fromUuid (setSlotLevelForBlueprint w codexRef blueprintRef level)
        codexRef = Some (DItem cp codex')"
    and m1: "getFlag codex' ''slotLevelsByUuid'' = uuidMap'"
    and m2: "getFlag codex' ''slotLevelsByName'' = nameMap'"
    unfolding steps by blast
  from isMap_coalesce[OF assms(3)] obtain us where us: "uuidMap = JObj us"
    unfolding uuidMap_def by blast
  from isMap_coalesce[OF assms(4)] obtain ns where ns: "nameMap = JObj ns"
    unfolding nameMap_def by blast
  have ref: "blueprintRef \<noteq> ''__proto__''"
    using fromUuid_item_uuid[OF assms(2)] item_uuid_not_proto[of bp blueprint] by simp
  have maps: "case nl of
          Some n \<Rightarrow> get_prop uuidMap' blueprintRef = JNum n
                    \<and> (item_name blueprint \<noteq> [] \<and> item_name blueprint \<noteq> ''__proto__'' \<longrightarrow>
                         get_prop nameMap' (item_name blueprint) = JNum n)
        | None \<Rightarrow> \<not> has_prop uuidMap' blueprintRef
                  \<and> (item_name blueprint \<noteq> [] \<longrightarrow>
                        \<not> has_prop nameMap' (item_name blueprint))"
  proof (cases nl)
    case None
    then show ?thesis
      unfolding uuidMap'_def nameMap'_def us ns by (simp add: delete_keys)
  next
    case (Some n)
    then show ?thesis
      unfolding uuidMap'_def nameMap'_def us ns using ref by (simp add: update_conv')
  qed
  have empty: "item_name blueprint = [] \<longrightarrow> nameMap' = nameMap"
    by (simp add: nameMap'_def)
  show ?thesis
  proof (intro exI[of _ codex'] conjI)
    show "fromUuid (setSlotLevelForBlueprint w codexRef blueprintRef level) codexRef
            = Some (DItem cp codex')" by (rule res)
    show "case nl of
            Some n \<Rightarrow>
              get_prop (getFlag codex' ''slotLevelsByUuid'') blueprintRef = JNum n
              \<and> (item_name blueprint \<noteq> [] \<and> item_name blueprint \<noteq> ''__proto__'' \<longrightarrow>
                   get_prop (getFlag codex' ''slotLevelsByName'') (item_name blueprint) = JNum n)
          | None \<Rightarrow>
              \<not> has_prop (getFlag codex' ''slotLevelsByUuid'') blueprintRef
              \<and> (item_name blueprint \<noteq> [] \<longrightarrow>
                   \<not> has_prop (getFlag codex' ''slotLevelsByName'') (item_name blueprint))"
      using maps unfolding m1 m2 .
    show "item_name blueprint = [] \<longrightarrow>
            getFlag codex' ''slotLevelsByName''
              = coalesce (getFlag codex ''slotLevelsByName'') (JObj [])"
      using empty unfolding m2 nameMap_def .
  qed
qed


theorem category_maps_agree_witness:
  "fromUuid demo_world ''Actor.a1.Item.c1'' = Some (DItem (Some ''a1'') demo_codex)
   \<and> fromUuid demo_world ''Actor.a1.Item.b2'' = Some (DItem (Some ''a1'') demo_unlisted)
   \<and> fromUuid demo_world ''Actor.a1.Item.b1'' = Some (DItem (Some ''a1'') demo_blueprint)
   \<and> fromUuid demo_world ''Actor.a1.Item.b3'' = Some (DItem (Some ''a1'') demo_nameless)
   \<and> isMap (getFlag demo_codex ''slotLevelsByUuid'')
   \<and> isMap (getFlag demo_codex ''slotLevelsByName'')
   \<and> item_name demo_unlisted \<noteq> [] \<and> item_name demo_unlisted \<noteq> ''__proto__''
   \<and> item_name demo_blueprint \<noteq> [] \<and> item_name demo_nameless = []
   \<and> normalizedLevel (JNum 5) = Some (Some 5) \<and> normalizedLevel JNull = Some None
   \<and> (\<exists>codex'. fromUuid (setSlotLevelForBlueprint demo_world ''Actor.a1.Item.c1''
                              ''Actor.a1.Item.b2'' (JNum 5)) ''Actor.a1.Item.c1''
                     = Some (DItem (Some ''a1'') codex')
          \<and> get_prop (getFlag codex' ''slotLevelsByUuid'') ''Actor.a1.Item.b2'' = JNum 5
          \<and> get_prop (getFlag codex' ''slotLevelsByName'') (item_name demo_unlisted) = JNum 5)
   \<and> (\<exists>codex'. fromUuid (setSlotLevelForBlueprint demo_world ''Actor.a1.Item.c1''
                              ''Actor.a1.Item.b1'' JNull) ''Actor.a1.Item.c1''
                     = Some (DItem (Some ''a1'') codex')
          \<and> \<not> has_prop (getFlag codex' ''slotLevelsByUuid'') ''Actor.a1.Item.b1''
          \<and> \<not> has_prop (getFlag codex' ''slotLevelsByName'') (item_name demo_blueprint))
   \<and> (\<exists>codex'. fromUuid (setSlotLevelForBlueprint demo_world ''Actor.a1.Item.c1''
                              ''Actor.a1.Item.b3'' (JNum 5)) ''Actor.a1.Item.c1''
                     = Some (DItem (Some ''a1'') codex')
          \<and> get_prop (getFlag codex' ''slotLevelsByUuid'') ''Actor.a1.Item.b3'' = JNum 5
          \<and> getFlag codex' ''slotLevelsByName''
              = coalesce (getFlag demo_codex ''slotLevelsByName'') (JObj []))"
proof -
  have a: "fromUuid demo_world ''Actor.a1.Item.c1'' = Some (DItem (Some ''a1'') demo_codex)"
    by code_simp
  have b: "fromUuid demo_world ''Actor.a1.Item.b2'' = Some (DItem (Some ''a1'') demo_unlisted)"
    by code_simp
  have c: "fromUuid demo_world ''Actor.a1.Item.b1'' = Some (DItem (Some ''a1'') demo_blueprint)"
    by code_simp
  have c': "fromUuid demo_world ''Actor.a1.Item.b3'' = Some (DItem (Some ''a1'') demo_nameless)"
    by code_simp
  have d: "isMap (getFlag demo_codex ''slotLevelsByUuid'')" by code_simp
  have e: "isMap (getFlag demo_codex ''slotLevelsByName'')" by code_simp
  have f: "item_name demo_unlisted \<noteq> []" "item_name demo_unlisted \<noteq> ''__proto__''"
    by (simp_all add: demo_unlisted_def)
  have g: "item_name demo_blueprint \<noteq> []" by (simp add: demo_blueprint_def)
  have g': "item_name demo_nameless = []" by (simp add: demo_nameless_def)
  have h: "normalizedLevel (JNum 5) = Some (Some 5)" by code_simp
  have i: "normalizedLevel JNull = Some None" by code_simp
  from category_maps_agree[OF a b d e h] f
  have r1: "\<exists>codex'. fromUuid (setSlotLevelForBlueprint demo_world ''Actor.a1.Item.c1''
                              ''Actor.a1.Item.b2'' (JNum 5)) ''Actor.a1.Item.c1''
                     = Some (DItem (Some ''a1'') codex')
          \<and> get_prop (getFlag codex' ''slotLevelsByUuid'') ''Actor.a1.Item.b2'' = JNum 5
          \<and> get_prop (getFlag codex' ''slotLevelsByName'') (item_name demo_unlisted) = JNum 5"
    by auto
  from category_maps_agree[OF a c d e i] g
  have r2: "\<exists>codex'. fromUuid (setSlotLevelForBlueprint demo_world ''Actor.a1.Item.c1''
                              ''Actor.a1.Item.b1'' JNull) ''Actor.a1.Item.c1''
                     = Some (DItem (Some ''a1'') codex')
          \<and> \<not> has_prop (getFlag codex' ''slotLevelsByUuid'') ''Actor.a1.Item.b1''
          \<and> \<not> has_prop (getFlag codex' ''slotLevelsByName'') (item_name demo_blueprint)"
    by auto
  from category_maps_agree[OF a c' d e h] g'
  have r3: "\<exists>codex'. fromUuid (setSlotLevelForBlueprint demo_world ''Actor.a1.Item.c1''
                              ''Actor.a1.Item.b3'' (JNum 5)) ''Actor.a1.Item.c1''
                     = Some (DItem (Some ''a1'') codex')
          \<and> get_prop (getFlag codex' ''slotLevelsByUuid'') ''Actor.a1.Item.b3'' = JNum 5
          \<and> getFlag codex' ''slotLevelsByName''
              = coalesce (getFlag demo_codex ''slotLevelsByName'') (JObj [])"
    by auto
  from a b c c' d e f g g' h i r1 r2 r3 show ?thesis by (intro conjI)
qed

text \<open>
  The claim as written fails for a blueprint whose name is empty: the assignment of
  category 5 writes the uuid-keyed map and leaves the name-keyed map as it was, so only
  one of the two is updated.
\<close>

theorem category_maps_counterexample:
  "fromUuid demo_world ''Actor.a1.Item.b3'' = Some (DItem (Some ''a1'') demo_nameless)
   \<and> normalizedLevel (JNum 5) = Some (Some 5)
   \<and> get_prop (getFlag (liveItem (setSlotLevelForBlueprint demo_world ''Actor.a1.Item.c1''
                                    ''Actor.a1.Item.b3'' (JNum 5))
                          (Some ''a1'') demo_codex) ''slotLevelsByUuid'')
        ''Actor.a1.Item.b3'' = JNum 5
   \<and> get_prop (getFlag (liveItem (setSlotLevelForBlueprint demo_world ''Actor.a1.Item.c1''
                                    ''Actor.a1.Item.b3'' (JNum 5))
                          (Some ''a1'') demo_codex) ''slotLevelsByName'')
        (item_name demo_nameless) = JUndefined
   \<and> getFlag (liveItem (setSlotLevelForBlueprint demo_world ''Actor.a1.Item.c1''
                          ''Actor.a1.Item.b3'' (JNum 5))
                (Some ''a1'') demo_codex) ''slotLevelsByName''
       = getFlag demo_codex ''slotLevelsByName''"
proof -
  have a: "fromUuid demo_world ''Actor.a1.Item.b3'' = Some (DItem (Some ''a1'') demo_nameless)"
    by code_simp
  have b: "normalizedLevel (JNum 5) = Some (Some 5)" by code_simp
  have c: "get_prop (getFlag (liveItem (setSlotLevelForBlueprint demo_world
        ''Actor.a1.Item.c1'' ''Actor.a1.Item.b3'' (JNum 5)) (Some ''a1'') demo_codex)
        ''slotLevelsByUuid'') ''Actor.a1.Item.b3'' = JNum 5" by code_simp
  have d: "get_prop (getFlag (liveItem (setSlotLevelForBlueprint demo_world
        ''Actor.a1.Item.c1'' ''Actor.a1.Item.b3'' (JNum 5)) (Some ''a1'') demo_codex)
        ''slotLevelsByName'') (item_name demo_nameless) = JUndefined" by code_simp
  have e: "getFlag (liveItem (setSlotLevelForBlueprint demo_world ''Actor.a1.Item.c1''
        ''Actor.a1.Item.b3'' (JNum 5)) (Some ''a1'') demo_codex) ''slotLevelsByName''
       = getFlag demo_codex ''slotLevelsByName''" by code_simp
  from a b c d e show ?thesis by (intro conjI)
qed

end
